theory Spec2Isabelle
  imports Complex_Main "HOL-Library.Log_Nat"
begin

section \<open>Shared domain types\<close>

text \<open>
  Both services declare \<^verbatim>\<open>AccountID\<close> and \<^verbatim>\<open>TransactionID\<close> as \<^verbatim>\<open>int64\<close>.  The code only
  compares identifiers (with each other and with zero) and never computes with them, so
  they are modelled as integers.
\<close>

type_synonym AccountID = int
type_synonym TransactionID = int

text \<open>\<^verbatim>\<open>domain.Account\<close> of the account service.\<close>

record Account =
  ID :: AccountID
  Balance :: string

text \<open>\<^verbatim>\<open>domain.TransactionEvent\<close>, the event envelope.\<close>

record TransactionEvent =
  TransactionID :: TransactionID
  SourceAccountID :: AccountID
  DestinationAccountID :: AccountID
  Amount :: string
  Status :: string

definition EventTransactionSubmitted :: string where
  "EventTransactionSubmitted = ''transaction.submitted''"

definition EventTransactionCompleted :: string where
  "EventTransactionCompleted = ''transaction.completed''"

definition EventTransactionFailed :: string where
  "EventTransactionFailed = ''transaction.failed''"

subsection \<open>Errors\<close>

text \<open>
  The sentinel errors of the two \<^verbatim>\<open>application\<close> packages, the errors of the storage
  driver and of the channel, and \<^verbatim>\<open>fmt.Errorf("<text>: %w", err)\<close> as \<open>Errorf text err\<close>.
  \<open>ErrNoRows\<close> is \<^verbatim>\<open>pgx.ErrNoRows\<close>; \<open>ErrStorage\<close> stands for any other error of a
  storage call and \<open>ErrChannel\<close> for any error of a channel call.  \<open>ErrText\<close> is an error
  made by \<^verbatim>\<open>fmt.Errorf\<close> from a text alone.
\<close>

datatype error =
    ErrInvalidAmount
  | ErrNegativeAmount
  | ErrAccountExists
  | ErrAccountNotFound
  | ErrInvalidAccountID
  | ErrInsufficientFunds
  | ErrSameAccount
  | ErrNoRows
  | ErrStorage
  | ErrChannel
  | ErrText string
  | Errorf string error

text \<open>\<^verbatim>\<open>errors.Is\<close>: the error itself or one it wraps.\<close>

fun errors_Is :: "error \<Rightarrow> error \<Rightarrow> bool" where
  "errors_Is (Errorf m e) target = (Errorf m e = target \<or> errors_Is e target)"
| "errors_Is e target = (e = target)"

text \<open>The message \<^verbatim>\<open>err.Error()\<close> of the errors whose text the code declares.\<close>

fun Error :: "error \<Rightarrow> string" where
  "Error ErrInvalidAmount = ''invalid amount format''"
| "Error ErrNegativeAmount = ''amount cannot be negative''"
| "Error ErrAccountExists = ''account already exists''"
| "Error ErrAccountNotFound = ''account not found''"
| "Error ErrInvalidAccountID = ''invalid account ID''"
| "Error ErrInsufficientFunds = ''insufficient funds''"
| "Error ErrSameAccount = ''source and destination accounts cannot be the same''"
| "Error ErrNoRows = ''no rows in result set''"
| "Error ErrStorage = ''storage error''"
| "Error ErrChannel = ''channel error''"
| "Error (ErrText m) = m"
| "Error (Errorf m e) = m @ '': '' @ Error e"

text \<open>
  A Go call either returns or panics (a nil pointer dereference, or a panic raised by a
  library function).  Neither service recovers from a panic.
\<close>

datatype 'a outcome = Returns 'a | Panics

subsection \<open>Failures of the environment\<close>

text \<open>
  Every call to the database or to the channel may fail for reasons outside the program.
  The model carries, for each of the two, the list of outcomes of the calls still to
  come: \<open>True\<close> means that the next call fails.  An empty list means that no further
  call fails.
\<close>

fun next_fault :: "bool list \<Rightarrow> bool \<times> bool list" where
  "next_fault [] = (False, [])"
| "next_fault (f # fs) = (f, fs)"

section \<open>The Go standard library, as far as the account service calls it\<close>

text \<open>
  \<^verbatim>\<open>strings.TrimSpace\<close> and the operations of \<^verbatim>\<open>math/big.Float\<close> are not code of this
  repository.  The account service is modelled over any implementation of them, given as
  a record of functions on a type \<open>'f\<close> of floating-point values:
  \<^item> \<open>SetString s\<close> is \<^verbatim>\<open>new(big.Float).SetString(s)\<close>: \<open>None\<close> when it returns
    \<^verbatim>\<open>(nil, false)\<close>;
  \<^item> \<open>Sign x\<close> and \<open>Cmp x y\<close> are \<^verbatim>\<open>x.Sign()\<close> and \<^verbatim>\<open>x.Cmp(y)\<close>;
  \<^item> \<open>Sub x y\<close> and \<open>Add x y\<close> are the value of \<^verbatim>\<open>x\<close> after \<^verbatim>\<open>x.Sub(x, y)\<close> and
    \<^verbatim>\<open>x.Add(x, y)\<close>: \<open>None\<close> when the call panics (the library panics with \<^verbatim>\<open>ErrNaN\<close> on
    infinities that cancel);
  \<^item> \<open>Text x\<close> is \<^verbatim>\<open>x.Text('f', 2)\<close>.
\<close>

record 'f stdlib =
  TrimSpace :: "string \<Rightarrow> string"
  SetString :: "string \<Rightarrow> 'f option"
  Sign :: "'f \<Rightarrow> int"
  Cmp :: "'f \<Rightarrow> 'f \<Rightarrow> int"
  Sub :: "'f \<Rightarrow> 'f \<Rightarrow> 'f option"
  Add :: "'f \<Rightarrow> 'f \<Rightarrow> 'f option"
  Text :: "'f \<Rightarrow> string"

section \<open>Account service\<close>

subsection \<open>State: the accounts table and the channel\<close>

text \<open>
  \<open>accounts\<close> is the table \<^verbatim>\<open>accounts (id BIGINT PRIMARY KEY, balance TEXT NOT NULL)\<close>,
  \<open>published\<close> the messages the exchange \<^verbatim>\<open>transactions\<close> has accepted from this
  service, each with its routing key.  A message body is the JSON encoding of an event;
  the model keeps the event itself.
\<close>

record account_world =
  accounts :: "AccountID \<Rightarrow> string option"
  storage_faults :: "bool list"
  published :: "(string \<times> TransactionEvent) list"
  publish_faults :: "bool list"

subsection \<open>\<^verbatim>\<open>postgres.AccountRepository\<close>\<close>

text \<open>
  \<^verbatim>\<open>GetByID\<close> returns \<^verbatim>\<open>(nil, err)\<close> whenever \<^verbatim>\<open>Scan\<close> fails, also when the query finds no
  row (\<^verbatim>\<open>pgx.ErrNoRows\<close>); otherwise \<^verbatim>\<open>(account, nil)\<close>.  The pair is kept as the code
  returns it, since the callers test both components.
\<close>

definition GetByID ::
  "AccountID \<Rightarrow> account_world \<Rightarrow> (Account option \<times> error option) \<times> account_world" where
  "GetByID aid w =
     (case next_fault (storage_faults w) of
        (failed, fs) \<Rightarrow>
          (if failed then (None, Some (Errorf ''failed to get account'' ErrStorage))
           else (case accounts w aid of
                   None \<Rightarrow> (None, Some (Errorf ''failed to get account'' ErrNoRows))
                 | Some b \<Rightarrow> (Some \<lparr>ID = aid, Balance = b\<rparr>, None)),
           w\<lparr>storage_faults := fs\<rparr>))"

text \<open>
  \<^verbatim>\<open>Update\<close> runs \<^verbatim>\<open>UPDATE accounts SET balance = $2 WHERE id = $1\<close>: a statement that
  matches no row changes nothing and is no error.
\<close>

definition Update :: "Account \<Rightarrow> account_world \<Rightarrow> error option \<times> account_world" where
  "Update account w =
     (case next_fault (storage_faults w) of
        (failed, fs) \<Rightarrow>
          (if failed then (Some (Errorf ''failed to update account'' ErrStorage),
                           w\<lparr>storage_faults := fs\<rparr>)
           else (None,
                 w\<lparr>accounts := (case accounts w (ID account) of
                                   None \<Rightarrow> accounts w
                                 | Some _ \<Rightarrow> (accounts w)(ID account \<mapsto> Balance account)),
                   storage_faults := fs\<rparr>)))"

subsection \<open>\<^verbatim>\<open>messaging.RabbitMQBroker\<close>: publishing\<close>

definition PublishWithContext ::
  "string \<Rightarrow> TransactionEvent \<Rightarrow> account_world \<Rightarrow> error option \<times> account_world" where
  "PublishWithContext key body w =
     (case next_fault (publish_faults w) of
        (failed, fs) \<Rightarrow>
          (if failed then (Some ErrChannel, w\<lparr>publish_faults := fs\<rparr>)
           else (None, w\<lparr>published := published w @ [(key, body)], publish_faults := fs\<rparr>)))"

definition PublishTransactionCompleted ::
  "TransactionEvent \<Rightarrow> account_world \<Rightarrow> error option \<times> account_world" where
  "PublishTransactionCompleted event w = PublishWithContext EventTransactionCompleted event w"

definition PublishTransactionFailed ::
  "TransactionEvent \<Rightarrow> account_world \<Rightarrow> error option \<times> account_world" where
  "PublishTransactionFailed event w = PublishWithContext EventTransactionFailed event w"

subsection \<open>\<^verbatim>\<open>application.accountService\<close>\<close>

definition validateAmount :: "'f stdlib \<Rightarrow> string \<Rightarrow> error option" where
  "validateAmount lib amount0 =
     (let amount = TrimSpace lib amount0 in
      if amount = [] then Some ErrInvalidAmount
      else (case SetString lib amount of
              None \<Rightarrow> Some ErrInvalidAmount
            | Some v \<Rightarrow> if Sign lib v < 0 then Some ErrNegativeAmount else None))"

definition validateAccountID :: "AccountID \<Rightarrow> error option" where
  "validateAccountID aid = (if aid \<le> 0 then Some ErrInvalidAccountID else None)"

definition GetAccount :: "AccountID \<Rightarrow> account_world \<Rightarrow> (error + Account) \<times> account_world" where
  "GetAccount aid w =
     (case validateAccountID aid of
        Some err \<Rightarrow> (Inl (Errorf ''invalid account ID'' err), w)
      | None \<Rightarrow>
          (case GetByID aid w of
             ((_, Some err), w1) \<Rightarrow> (Inl (Errorf ''failed to get account'' err), w1)
           | ((None, None), w1) \<Rightarrow> (Inl ErrAccountNotFound, w1)
           | ((Some account, None), w1) \<Rightarrow> (Inr account, w1)))"

text \<open>
  The handler of a ``submitted'' event.  Every failure path publishes a ``failed'' event
  with the event's fields and a status text, logs (and otherwise ignores) an error of that
  publish, and returns the error of the path.
\<close>

definition emit_failed :: "TransactionEvent \<Rightarrow> string \<Rightarrow> account_world \<Rightarrow> account_world" where
  "emit_failed event status w = snd (PublishTransactionFailed (event\<lparr>Status := status\<rparr>) w)"

definition apply_transfer ::
  "'f stdlib \<Rightarrow> TransactionEvent \<Rightarrow> Account \<Rightarrow> Account \<Rightarrow> account_world \<Rightarrow>
     error option outcome \<times> account_world" where
  "apply_transfer lib event sourceAccount destAccount w =
     (case (SetString lib (Balance sourceAccount), SetString lib (Amount event)) of
        (Some sourceBalance, Some amount) \<Rightarrow>
          (if Cmp lib sourceBalance amount < 0
           then (Returns (Some ErrInsufficientFunds),
                 emit_failed event ''failed: insufficient funds'' w)
           else
             (case Sub lib sourceBalance amount of
                None \<Rightarrow> (Panics, w)
              | Some sourceBalance' \<Rightarrow>
                  (case SetString lib (Balance destAccount) of
                     None \<Rightarrow> (Panics, w)
                   | Some destBalance \<Rightarrow>
                       (case Add lib destBalance amount of
                          None \<Rightarrow> (Panics, w)
                        | Some destBalance' \<Rightarrow>
                            (case Update (sourceAccount\<lparr>Balance := Text lib sourceBalance'\<rparr>) w of
                               (Some err, w1) \<Rightarrow>
                                 (Returns (Some (Errorf ''failed to update source account'' err)),
                                  emit_failed event ''failed: could not update source account'' w1)
                             | (None, w1) \<Rightarrow>
                                 (case Update (destAccount\<lparr>Balance := Text lib destBalance'\<rparr>) w1 of
                                    (Some err, w2) \<Rightarrow>
                                      (Returns (Some (Errorf ''failed to update destination account'' err)),
                                       emit_failed event
                                         ''failed: could not update destination account'' w2)
                                  | (None, w2) \<Rightarrow>
                                      (Returns None,
                                       snd (PublishTransactionCompleted
                                              (event\<lparr>Status := ''complete''\<rparr>) w2))))))))
      | _ \<Rightarrow> (Panics, w))"

definition HandleTransactionSubmitted ::
  "'f stdlib \<Rightarrow> TransactionEvent \<Rightarrow> account_world \<Rightarrow> error option outcome \<times> account_world" where
  "HandleTransactionSubmitted lib event w =
     (case GetByID (SourceAccountID event) w of
        ((_, Some err), w1) \<Rightarrow>
          (Returns (Some (Errorf ''failed to get source account'' err)),
           emit_failed event ''failed: source account not found'' w1)
      | ((None, None), w1) \<Rightarrow>
          (Returns (Some ErrAccountNotFound),
           emit_failed event ''failed: source account not found'' w1)
      | ((Some sourceAccount, None), w1) \<Rightarrow>
          (case GetByID (DestinationAccountID event) w1 of
             ((_, Some err), w2) \<Rightarrow>
               (Returns (Some (Errorf ''failed to get destination account'' err)),
                emit_failed event ''failed: destination account not found'' w2)
           | ((None, None), w2) \<Rightarrow>
               (Returns (Some ErrAccountNotFound),
                emit_failed event ''failed: destination account not found'' w2)
           | ((Some destAccount, None), w2) \<Rightarrow>
               (case validateAmount lib (Amount event) of
                  Some err \<Rightarrow>
                    (Returns (Some (Errorf ''invalid amount'' err)),
                     emit_failed event ''failed: invalid amount'' w2)
                | None \<Rightarrow> apply_transfer lib event sourceAccount destAccount w2)))"

subsection \<open>\<^verbatim>\<open>http.AccountHandler\<close>\<close>

text \<open>
  A response is its status code and its JSON body.  The handler's argument is the result
  of \<^verbatim>\<open>strconv.ParseInt\<close> on the path parameter: \<open>None\<close> when the parameter is not a
  64-bit integer.
\<close>

datatype response_body = AccountResponse int string | ErrorResponse string

definition GetAccount_handler ::
  "int option \<Rightarrow> account_world \<Rightarrow> (nat \<times> response_body) \<times> account_world" where
  "GetAccount_handler param w =
     (case param of
        None \<Rightarrow> ((400, ErrorResponse ''Invalid account ID''), w)
      | Some accountID \<Rightarrow>
          (case GetAccount accountID w of
             (Inl err, w1) \<Rightarrow>
               ((if errors_Is err ErrAccountNotFound then (404, ErrorResponse (Error err))
                 else if errors_Is err ErrInvalidAccountID then (400, ErrorResponse (Error err))
                 else (500, ErrorResponse ''Failed to get account'')), w1)
           | (Inr account, w1) \<Rightarrow> ((200, AccountResponse (ID account) (Balance account)), w1)))"

subsection \<open>\<^verbatim>\<open>messaging.RabbitMQBroker\<close>: consuming\<close>

text \<open>
  \<^verbatim>\<open>SubscribeToTransactionEvents\<close> declares the queue \<^verbatim>\<open>account_transaction_events\<close>, bound
  to the routing key of ``submitted'' events and with \<^verbatim>\<open>account_transaction_events_dlq\<close>
  as its dead-letter target, and then handles the deliveries one by one.

  A delivery is a body and a table of headers.  The body is kept as the event that
  \<^verbatim>\<open>json.Unmarshal\<close> makes of it, \<open>None\<close> when it fails.  Of a header value only its
  type matters to the code: \<open>Int32\<close> is a value for which the type assertion
  \<^verbatim>\<open>.(int32)\<close> holds (the wire format of the \<^verbatim>\<open>int\<close> that a republish writes).
\<close>

datatype amqp_value = Int32 int | OtherValue string

record Delivery =
  Body :: "TransactionEvent option"
  Headers :: "(string \<times> amqp_value) list"

text \<open>
  The broker's side of the consumer: the queue, the dead-letter queue, and the outcomes of
  the republishing calls still to come.  \<open>handled\<close> is not state of the program: it
  records the events passed to the handler, in order.
\<close>

record channel =
  queue :: "Delivery list"
  dead_letters :: "Delivery list"
  republish_faults :: "bool list"
  handled :: "TransactionEvent list"

definition retry_count :: "Delivery \<Rightarrow> int" where
  "retry_count msg =
     (case map_of (Headers msg) ''x-retry-count'' of Some (Int32 retries) \<Rightarrow> retries | _ \<Rightarrow> 0)"

text \<open>
  One iteration of the loop \<^verbatim>\<open>for msg := range msgs\<close>, on the delivery \<open>msg\<close> taken
  from the queue.  \<^verbatim>\<open>Nack(false, false)\<close> rejects without requeue, which moves the
  message to the dead-letter queue; \<^verbatim>\<open>Ack\<close> removes it.  A republish with the routing
  key of ``submitted'' events is routed back to this queue.  The result says whether the
  handler panicked: the process then dies with the delivery unacknowledged, so the
  message is back in the queue.
\<close>

definition deliver ::
  "(TransactionEvent \<Rightarrow> 's \<Rightarrow> error option outcome \<times> 's) \<Rightarrow> Delivery \<Rightarrow> channel \<times> 's \<Rightarrow>
     bool \<times> channel \<times> 's" where
  "deliver handler msg cs =
     (case cs of (ch, s) \<Rightarrow>
        (case Body msg of
           None \<Rightarrow> (False, ch\<lparr>dead_letters := dead_letters ch @ [msg]\<rparr>, s)
         | Some event \<Rightarrow>
             (if retry_count msg \<ge> 3
              then (False, ch\<lparr>dead_letters := dead_letters ch @ [msg]\<rparr>, s)
              else
                (case handler event s of
                   (Panics, s1) \<Rightarrow>
                     (True, ch\<lparr>queue := msg # queue ch, handled := handled ch @ [event]\<rparr>, s1)
                 | (Returns None, s1) \<Rightarrow> (False, ch\<lparr>handled := handled ch @ [event]\<rparr>, s1)
                 | (Returns (Some err), s1) \<Rightarrow>
                     (let retryCount = retry_count msg + 1 in
                      if retryCount \<ge> 3
                      then (False, ch\<lparr>dead_letters := dead_letters ch @ [msg],
                                     handled := handled ch @ [event]\<rparr>, s1)
                      else
                        (case next_fault (republish_faults ch) of
                           (failed, fs) \<Rightarrow>
                             (if failed
                              then (False, ch\<lparr>republish_faults := fs,
                                             handled := handled ch @ [event]\<rparr>, s1)
                              else (False,
                                    ch\<lparr>queue := queue ch @
                                          [\<lparr>Body = Body msg,
                                            Headers = [(''x-retry-count'', Int32 retryCount)]\<rparr>],
                                       republish_faults := fs,
                                       handled := handled ch @ [event]\<rparr>, s1))))))))"

text \<open>The loop itself, run until the queue is empty or the process has died.\<close>

definition attempts_left :: "Delivery \<Rightarrow> nat" where
  "attempts_left msg = nat (3 - retry_count msg)"

definition pending_work :: "Delivery list \<Rightarrow> nat" where
  "pending_work q = sum_list (map (\<lambda>msg. Suc (attempts_left msg)) q)"

function consume ::
  "(TransactionEvent \<Rightarrow> 's \<Rightarrow> error option outcome \<times> 's) \<Rightarrow> channel \<times> 's \<Rightarrow> bool \<times> channel \<times> 's" where
  "consume handler (ch, s) =
     (case queue ch of
        [] \<Rightarrow> (False, ch, s)
      | msg # rest \<Rightarrow>
          (case deliver handler msg (ch\<lparr>queue := rest\<rparr>, s) of
             (crashed, ch', s') \<Rightarrow>
               if crashed then (True, ch', s') else consume handler (ch', s')))"
  by pat_completeness auto
termination
proof (relation "measure (\<lambda>(handler, ch, s). pending_work (queue ch))")
  show "wf (measure (\<lambda>(handler, ch, s). pending_work (queue ch)))" by simp
next
  fix handler :: "TransactionEvent \<Rightarrow> 's \<Rightarrow> error option outcome \<times> 's"
  fix ch s msg rest x crashed y ch' s'
  assume q: "queue ch = msg # rest"
    and d: "(crashed, y) = deliver handler msg (ch\<lparr>queue := rest\<rparr>, s)" "(ch', s') = y"
    and nc: "\<not> crashed"
  from d nc have "deliver handler msg (ch\<lparr>queue := rest\<rparr>, s) = (False, ch', s')"
    by (metis (full_types))
  then have "pending_work (queue ch') \<le> pending_work rest + attempts_left msg"
    by (auto simp: deliver_def pending_work_def attempts_left_def retry_count_def Let_def
             split: option.splits if_splits prod.splits outcome.splits list.splits
                    amqp_value.splits)
  with q
  show "((handler, ch', s'), (handler, ch, s)) \<in> measure (\<lambda>(handler, ch, s). pending_work (queue ch))"
    by (simp add: pending_work_def)
qed

section \<open>Transaction service\<close>

text \<open>
  \<^verbatim>\<open>domain.Transaction\<close>.  Its fields carry the prefix \<open>tx_\<close> here, since the event has
  fields of the same names.  \<^verbatim>\<open>CreatedAt\<close> and \<^verbatim>\<open>UpdatedAt\<close> are left out: the code
  neither reads nor writes them, and the repository selects neither column.
  \<^verbatim>\<open>TransactionStatus\<close> is a string type in the code and stays one.
\<close>

record Transaction =
  tx_ID :: TransactionID
  tx_SourceAccountID :: AccountID
  tx_DestinationAccountID :: AccountID
  tx_Amount :: string
  tx_Status :: string

definition TransactionStatusPending :: string where
  "TransactionStatusPending = ''pending''"

definition TransactionStatusComplete :: string where
  "TransactionStatusComplete = ''complete''"

definition TransactionStatusFailed :: string where
  "TransactionStatusFailed = ''failed''"

record TransactionDTO =
  dto_SourceAccountID :: AccountID
  dto_DestinationAccountID :: AccountID
  dto_Amount :: string

text \<open>
  \<open>transactions\<close> is the table \<^verbatim>\<open>transactions\<close> with its \<^verbatim>\<open>SERIAL\<close> key, whose next value
  is \<open>next_id\<close>; \<open>submitted\<close> holds the ``submitted'' events the channel has accepted
  from this service.
\<close>

record transaction_world =
  transactions :: "TransactionID \<Rightarrow> Transaction option"
  next_id :: TransactionID
  tx_storage_faults :: "bool list"
  submitted :: "TransactionEvent list"
  tx_publish_faults :: "bool list"

subsection \<open>\<^verbatim>\<open>postgres.transactionRepository\<close>\<close>

text \<open>\<^verbatim>\<open>Create\<close> inserts the row and scans the new key into \<^verbatim>\<open>transaction.ID\<close>.\<close>

definition tx_Create ::
  "Transaction \<Rightarrow> transaction_world \<Rightarrow> (error option \<times> Transaction) \<times> transaction_world" where
  "tx_Create transaction w =
     (case next_fault (tx_storage_faults w) of
        (failed, fs) \<Rightarrow>
          (if failed
           then ((Some (Errorf ''failed to create transaction'' ErrStorage), transaction),
                 w\<lparr>tx_storage_faults := fs\<rparr>)
           else (let row = transaction\<lparr>tx_ID := next_id w\<rparr> in
                 ((None, row),
                  w\<lparr>transactions := (transactions w)(next_id w \<mapsto> row),
                    next_id := next_id w + 1,
                    tx_storage_faults := fs\<rparr>))))"

text \<open>
  Unlike the account repository, \<^verbatim>\<open>GetByID\<close> here maps \<^verbatim>\<open>pgx.ErrNoRows\<close> to \<^verbatim>\<open>(nil, nil)\<close>.
  The table is keyed by the column \<^verbatim>\<open>id\<close>, so the \<^verbatim>\<open>id\<close> selected is the one asked for.
\<close>

definition tx_GetByID ::
  "TransactionID \<Rightarrow> transaction_world \<Rightarrow>
     (Transaction option \<times> error option) \<times> transaction_world" where
  "tx_GetByID tid w =
     (case next_fault (tx_storage_faults w) of
        (failed, fs) \<Rightarrow>
          (if failed then (None, Some (Errorf ''failed to get transaction'' ErrStorage))
           else (map_option (\<lambda>row. row\<lparr>tx_ID := tid\<rparr>) (transactions w tid), None),
           w\<lparr>tx_storage_faults := fs\<rparr>))"

text \<open>\<^verbatim>\<open>UPDATE transactions SET status = $1 WHERE id = $2\<close>.\<close>

definition tx_Update :: "Transaction \<Rightarrow> transaction_world \<Rightarrow> error option \<times> transaction_world" where
  "tx_Update transaction w =
     (case next_fault (tx_storage_faults w) of
        (failed, fs) \<Rightarrow>
          (if failed then (Some (Errorf ''failed to update transaction'' ErrStorage),
                           w\<lparr>tx_storage_faults := fs\<rparr>)
           else (None,
                 w\<lparr>transactions :=
                     (case transactions w (tx_ID transaction) of
                        None \<Rightarrow> transactions w
                      | Some row \<Rightarrow>
                          (transactions w)(tx_ID transaction \<mapsto>
                             row\<lparr>tx_Status := tx_Status transaction\<rparr>)),
                   tx_storage_faults := fs\<rparr>)))"

subsection \<open>The transaction service's broker\<close>

text \<open>
  Modelled from the spec: the package \<^verbatim>\<open>transaction-service/internal/infrastructure/messaging\<close>
  is missing from the sources; only the calls to it are there.  Following the spec's
  Transfer Initiator (``publishes a "submitted" event'', ``if publish fails \<dots>''),
  \<^verbatim>\<open>PublishTransactionSubmitted\<close> either hands the event to the channel or returns an error.
\<close>

definition PublishTransactionSubmitted ::
  "TransactionEvent \<Rightarrow> transaction_world \<Rightarrow> error option \<times> transaction_world" where
  "PublishTransactionSubmitted event w =
     (case next_fault (tx_publish_faults w) of
        (failed, fs) \<Rightarrow>
          (if failed then (Some ErrChannel, w\<lparr>tx_publish_faults := fs\<rparr>)
           else (None, w\<lparr>submitted := submitted w @ [event], tx_publish_faults := fs\<rparr>)))"

subsection \<open>\<^verbatim>\<open>application.transactionService\<close>\<close>

definition SubmitTransaction ::
  "TransactionDTO \<Rightarrow> transaction_world \<Rightarrow> error option \<times> transaction_world" where
  "SubmitTransaction dto w =
     (if dto_SourceAccountID dto = dto_DestinationAccountID dto then (Some ErrSameAccount, w)
      else
        (case tx_Create \<lparr>tx_ID = 0,
                         tx_SourceAccountID = dto_SourceAccountID dto,
                         tx_DestinationAccountID = dto_DestinationAccountID dto,
                         tx_Amount = dto_Amount dto,
                         tx_Status = TransactionStatusPending\<rparr> w of
           ((Some err, _), w1) \<Rightarrow> (Some (Errorf ''failed to create transaction'' err), w1)
         | ((None, transaction), w1) \<Rightarrow>
             (case PublishTransactionSubmitted
                     \<lparr>TransactionID = tx_ID transaction,
                      SourceAccountID = tx_SourceAccountID transaction,
                      DestinationAccountID = tx_DestinationAccountID transaction,
                      Amount = tx_Amount transaction,
                      Status = tx_Status transaction\<rparr> w1 of
                (Some err, w2) \<Rightarrow>
                  (Some (Errorf ''failed to publish transaction event'' err),
                   snd (tx_Update (transaction\<lparr>tx_Status := TransactionStatusFailed\<rparr>) w2))
              | (None, w2) \<Rightarrow> (None, w2))))"

text \<open>
  \<^verbatim>\<open>HandleTransactionCompleted\<close> assigns to \<^verbatim>\<open>transaction.Status\<close> without testing the
  pointer: on \<^verbatim>\<open>(nil, nil)\<close> from the repository that is a nil pointer dereference.
\<close>

definition HandleTransactionCompleted ::
  "TransactionEvent \<Rightarrow> transaction_world \<Rightarrow> error option outcome \<times> transaction_world" where
  "HandleTransactionCompleted event w =
     (case tx_GetByID (TransactionID event) w of
        ((_, Some err), w1) \<Rightarrow> (Returns (Some (Errorf ''failed to get transaction'' err)), w1)
      | ((None, None), w1) \<Rightarrow> (Panics, w1)
      | ((Some transaction, None), w1) \<Rightarrow>
          (case tx_Update (transaction\<lparr>tx_Status := TransactionStatusComplete\<rparr>) w1 of
             (Some err, w2) \<Rightarrow> (Returns (Some (Errorf ''failed to update transaction'' err)), w2)
           | (None, w2) \<Rightarrow> (Returns None, w2)))"

definition HandleTransactionFailed ::
  "TransactionEvent \<Rightarrow> transaction_world \<Rightarrow> error option outcome \<times> transaction_world" where
  "HandleTransactionFailed event w =
     (case tx_GetByID (TransactionID event) w of
        ((_, Some err), w1) \<Rightarrow> (Returns (Some (Errorf ''failed to get transaction'' err)), w1)
      | ((None, None), w1) \<Rightarrow> (Returns None, w1)
      | ((Some transaction, None), w1) \<Rightarrow>
          (case tx_Update (transaction\<lparr>tx_Status := TransactionStatusFailed\<rparr>) w1 of
             (Some err, w2) \<Rightarrow> (Returns (Some (Errorf ''failed to update transaction'' err)), w2)
           | (None, w2) \<Rightarrow> (Returns None, w2)))"

text \<open>The handler \<^verbatim>\<open>main\<close> subscribes: it dispatches on the status text of the event.\<close>

definition terminal_event_handler ::
  "TransactionEvent \<Rightarrow> transaction_world \<Rightarrow> error option outcome \<times> transaction_world" where
  "terminal_event_handler event w =
     (if Status event = TransactionStatusComplete then HandleTransactionCompleted event w
      else if Status event = TransactionStatusFailed then HandleTransactionFailed event w
      else (Returns None, w))"

section \<open>The library on plain decimal literals\<close>

text \<open>
  An implementation of the record above, for the witnesses and for the arithmetic of the
  transfer: \<^verbatim>\<open>math/big.Float\<close> at the precision \<^verbatim>\<open>SetString\<close> gives a new value (a
  mantissa of 64 bits, rounding to nearest even), on plain decimal literals: an optional
  sign, digits, and optionally a point and digits.  The other notations \<^verbatim>\<open>SetString\<close>
  reads (exponents, prefixes of other bases, separating underscores, \<^verbatim>\<open>Inf\<close>) are outside
  this implementation, which reads none of them, and so are infinities.  Every theorem
  below that is stated for an arbitrary library holds for the real one as well.

  \<open>Float sign m e\<close> is \<open>\<plusminus> m \<sqdot> 2\<^sup>e\<close> with either \<open>m = 0\<close> or \<open>2\<^sup>6\<^sup>3 \<le> m < 2\<^sup>6\<^sup>4\<close>.
  \<open>round_quot a b\<close> is the quotient \<open>a / b\<close> of two positive integers rounded to such
  a mantissa: every operation of the library returns the exact result rounded once.
\<close>

datatype Float = Float (neg: bool) (mant: int) (exp: int)

definition round_quot :: "int \<Rightarrow> int \<Rightarrow> int \<times> int" where
  "round_quot a b =
     (let e = bitlen a - bitlen b - 65;
          n = (if e < 0 then a * 2 ^ nat (- e) else a);
          d = (if e < 0 then b else b * 2 ^ nat e);
          q = n div d;
          sticky = (n mod d \<noteq> 0);
          k = bitlen q - 64;
          m = q div 2 ^ nat k;
          r = q mod 2 ^ nat k;
          half = 2 ^ nat (k - 1);
          m' = (if r > half \<or> (r = half \<and> (sticky \<or> odd m)) then m + 1 else m)
      in if m' = 2 ^ 64 then (2 ^ 63, e + k + 1) else (m', e + k))"

definition rounded :: "bool \<Rightarrow> int \<Rightarrow> int \<Rightarrow> int \<Rightarrow> Float" where
  "rounded sign a b e =
     (if a = 0 then Float False 0 0
      else (case round_quot a b of (m, e') \<Rightarrow> Float sign m (e' + e)))"

text \<open>Scanning a plain decimal literal: its sign, its digits as a number, and the number
  of digits after the point.\<close>

definition digit_of :: "char \<Rightarrow> nat option" where
  "digit_of c =
     map_of [(CHR ''0'', 0), (CHR ''1'', 1), (CHR ''2'', 2), (CHR ''3'', 3), (CHR ''4'', 4),
             (CHR ''5'', 5), (CHR ''6'', 6), (CHR ''7'', 7), (CHR ''8'', 8), (CHR ''9'', 9)] c"

fun digits_value :: "nat \<Rightarrow> string \<Rightarrow> nat option" where
  "digits_value acc [] = Some acc"
| "digits_value acc (c # cs) =
     (case digit_of c of None \<Rightarrow> None | Some d \<Rightarrow> digits_value (10 * acc + d) cs)"

definition scan_decimal :: "string \<Rightarrow> (bool \<times> nat \<times> nat) option" where
  "scan_decimal s =
     (let (sign, body) =
            (case s of
               [] \<Rightarrow> (False, [])
             | c # cs \<Rightarrow> if c = CHR ''-'' then (True, cs)
                         else if c = CHR ''+'' then (False, cs) else (False, s));
          ip = takeWhile (\<lambda>c. c \<noteq> CHR ''.'') body;
          fp = drop 1 (dropWhile (\<lambda>c. c \<noteq> CHR ''.'') body)
      in if ip = [] \<and> fp = [] then None
         else (case digits_value 0 (ip @ fp) of
                 None \<Rightarrow> None
               | Some m \<Rightarrow> Some (sign, m, length fp)))"

definition Float_SetString :: "string \<Rightarrow> Float option" where
  "Float_SetString s =
     (case scan_decimal s of
        None \<Rightarrow> None
      | Some (sign, m, k) \<Rightarrow>
          Some (if m = 0 then Float sign 0 0 else rounded sign (int m) (10 ^ k) 0))"

definition Float_Sign :: "Float \<Rightarrow> int" where
  "Float_Sign x = (if mant x = 0 then 0 else if neg x then - 1 else 1)"

definition scaled :: "int \<Rightarrow> Float \<Rightarrow> int" where
  "scaled e x = (if neg x then - 1 else 1) * mant x * 2 ^ nat (exp x - e)"

definition Float_Cmp :: "Float \<Rightarrow> Float \<Rightarrow> int" where
  "Float_Cmp x y =
     (let e = min (exp x) (exp y); a = scaled e x; b = scaled e y
      in if a < b then - 1 else if b < a then 1 else 0)"

definition Float_Sub :: "Float \<Rightarrow> Float \<Rightarrow> Float" where
  "Float_Sub x y =
     (if mant x = 0 \<and> mant y = 0 then Float (neg x \<and> \<not> neg y) 0 0
      else if mant y = 0 then x
      else if mant x = 0 then Float (\<not> neg y) (mant y) (exp y)
      else (let e = min (exp x) (exp y); c = scaled e x - scaled e y
            in rounded (c < 0) \<bar>c\<bar> 1 e))"

definition Float_Add :: "Float \<Rightarrow> Float \<Rightarrow> Float" where
  "Float_Add x y =
     (if mant x = 0 \<and> mant y = 0 then Float (neg x \<and> neg y) 0 0
      else if mant y = 0 then x
      else if mant x = 0 then y
      else (let e = min (exp x) (exp y); c = scaled e x + scaled e y
            in rounded (c < 0) \<bar>c\<bar> 1 e))"

text \<open>
  \<^verbatim>\<open>Text('f', 2)\<close>: the exact value in decimal, rounded to two digits after the point
  (half to even), with the sign of the value.
\<close>

definition digit_char :: "nat \<Rightarrow> char" where
  "digit_char d = ''0123456789'' ! d"

fun decimal_digits :: "nat \<Rightarrow> string" where
  "decimal_digits n =
     (if n < 10 then [digit_char n] else decimal_digits (n div 10) @ [digit_char (n mod 10)])"

declare decimal_digits.simps [simp del]

definition hundredths :: "Float \<Rightarrow> int" where
  "hundredths x =
     (let n = mant x * 100 in
      if exp x \<ge> 0 then n * 2 ^ nat (exp x)
      else (let d = 2 ^ nat (- exp x); q = n div d; r = n mod d
            in if 2 * r > d \<or> (2 * r = d \<and> odd q) then q + 1 else q))"

definition Float_Text :: "Float \<Rightarrow> string" where
  "Float_Text x =
     (let h = nat (hundredths x) in
      (if neg x then ''-'' else []) @ decimal_digits (h div 100) @ ''.'' @
      [digit_char (h mod 100 div 10), digit_char (h mod 10)])"

text \<open>\<^verbatim>\<open>strings.TrimSpace\<close> on ASCII text.\<close>

definition is_space :: "char \<Rightarrow> bool" where
  "is_space c = (c \<in> set [CHR 0x09, CHR 0x0A, CHR 0x0B, CHR 0x0C, CHR 0x0D, CHR '' ''])"

definition trim_space :: "string \<Rightarrow> string" where
  "trim_space s = rev (dropWhile is_space (rev (dropWhile is_space s)))"

definition go_lib :: "Float stdlib" where
  "go_lib = \<lparr>TrimSpace = trim_space, SetString = Float_SetString, Sign = Float_Sign,
             Cmp = Float_Cmp, Sub = (\<lambda>x y. Some (Float_Sub x y)),
             Add = (\<lambda>x y. Some (Float_Add x y)), Text = Float_Text\<rparr>"

section \<open>Conditions and inputs the theorems speak about\<close>

text \<open>The error the handler returns when the write of the destination balance fails.\<close>

definition destination_write_error :: error where
  "destination_write_error =
     Errorf ''failed to update destination account''
       (Errorf ''failed to update account'' ErrStorage)"

text \<open>
  A business failure of a ``submitted'' event: the source account is missing, or the
  destination account is missing, or the amount is valid and the source balance is below
  it.
\<close>

definition business_failure :: "'f stdlib \<Rightarrow> TransactionEvent \<Rightarrow> account_world \<Rightarrow> bool" where
  "business_failure lib event w =
     (case accounts w (SourceAccountID event) of
        None \<Rightarrow> True
      | Some sb \<Rightarrow>
          (case accounts w (DestinationAccountID event) of
             None \<Rightarrow> True
           | Some db \<Rightarrow>
               validateAmount lib (Amount event) = None \<and>
               (case (SetString lib sb, SetString lib (Amount event)) of
                  (Some x, Some a) \<Rightarrow> Cmp lib x a < 0
                | _ \<Rightarrow> False)))"

text \<open>
  The copy of a message that reaches the dead-letter queue when its handler keeps failing:
  the message itself if it arrived with a retry count of 2 or more, otherwise its last
  republished copy.
\<close>

definition final_copy :: "Delivery \<Rightarrow> Delivery" where
  "final_copy msg =
     (if retry_count msg \<ge> 2 then msg
      else \<lparr>Body = Body msg, Headers = [(''x-retry-count'', Int32 2)]\<rparr>)"

text \<open>
  The inputs of the scenarios: account 1 with balance 100.00 and account 2 with balance
  0.00, database and channel working; a ``submitted'' event; a message as first
  published, without headers; a queue holding one message; a handler that always fails;
  and two states of the transaction table.
\<close>

definition two_accounts :: account_world where
  "two_accounts = \<lparr>accounts = [1 \<mapsto> ''100.00'', 2 \<mapsto> ''0.00''], storage_faults = [],
                    published = [], publish_faults = []\<rparr>"

definition transfer :: "AccountID \<Rightarrow> AccountID \<Rightarrow> string \<Rightarrow> TransactionEvent" where
  "transfer src dst amount =
     \<lparr>TransactionID = 1, SourceAccountID = src, DestinationAccountID = dst,
      Amount = amount, Status = ''pending''\<rparr>"

definition fresh_delivery :: "TransactionEvent \<Rightarrow> Delivery" where
  "fresh_delivery event = \<lparr>Body = Some event, Headers = []\<rparr>"

definition one_message :: "Delivery \<Rightarrow> bool list \<Rightarrow> channel" where
  "one_message msg faults =
     \<lparr>queue = [msg], dead_letters = [], republish_faults = faults, handled = []\<rparr>"

definition failing_handler :: "TransactionEvent \<Rightarrow> unit \<Rightarrow> error option outcome \<times> unit" where
  "failing_handler event s = (Returns (Some ErrStorage), s)"

definition empty_ledger :: transaction_world where
  "empty_ledger = \<lparr>transactions = Map.empty, next_id = 1, tx_storage_faults = [],
                    submitted = [], tx_publish_faults = []\<rparr>"

definition completed_ledger :: transaction_world where
  "completed_ledger =
     \<lparr>transactions = [1 \<mapsto> \<lparr>tx_ID = 1, tx_SourceAccountID = 1, tx_DestinationAccountID = 2,
                             tx_Amount = ''40.00'', tx_Status = ''complete''\<rparr>],
      next_id = 2, tx_storage_faults = [], submitted = [], tx_publish_faults = []\<rparr>"

section \<open>The library at the values of the scenarios\<close>

text \<open>
  The scenarios are evaluated in layers: first the rounded quotients, then the values
  read from the literals, then the operations on them.
\<close>

lemma round_quot_values:
  "round_quot 10000 100 = (14411518807585587200, - 57)"
  "round_quot 4000 100 = (11529215046068469760, - 58)"
  "round_quot 15000 100 = (10808639105689190400, - 56)"
  "round_quot 1 1000 = (9444732965739290427, - 73)"
  "round_quot 500 100 = (11529215046068469760, - 61)"
  by code_simp+

lemma SetString_values:
  "Float_SetString ''100.00'' = Some (Float False 14411518807585587200 (- 57))"
  "Float_SetString ''0.00'' = Some (Float False 0 0)"
  "Float_SetString ''40.00'' = Some (Float False 11529215046068469760 (- 58))"
  "Float_SetString ''150.00'' = Some (Float False 10808639105689190400 (- 56))"
  "Float_SetString ''0'' = Some (Float False 0 0)"
  "Float_SetString ''0.001'' = Some (Float False 9444732965739290427 (- 73))"
  "Float_SetString ''-5.00'' = Some (Float True 11529215046068469760 (- 61))"
  by (simp_all add: Float_SetString_def scan_decimal_def digit_of_def rounded_def
        round_quot_values)

lemma trim_space_values:
  "trim_space ''100.00'' = ''100.00''"
  "trim_space ''0.00'' = ''0.00''"
  "trim_space ''40.00'' = ''40.00''"
  "trim_space ''150.00'' = ''150.00''"
  "trim_space ''0'' = ''0''"
  "trim_space ''0.001'' = ''0.001''"
  "trim_space ''-5.00'' = ''-5.00''"
  by (simp_all add: trim_space_def is_space_def)

lemma Cmp_values:
  "Float_Cmp (Float False 14411518807585587200 (- 57))
             (Float False 11529215046068469760 (- 58)) = 1"
  "Float_Cmp (Float False 14411518807585587200 (- 57))
             (Float False 10808639105689190400 (- 56)) = - 1"
  "Float_Cmp (Float False 14411518807585587200 (- 57)) (Float False 0 0) = 1"
  "Float_Cmp (Float False 14411518807585587200 (- 57))
             (Float False 9444732965739290427 (- 73)) = 1"
  by (simp_all add: Float_Cmp_def scaled_def)

lemma Sub_values:
  "Float_Sub (Float False 14411518807585587200 (- 57))
             (Float False 11529215046068469760 (- 58))
     = Float False 17293822569102704640 (- 58)"
  "Float_Sub (Float False 14411518807585587200 (- 57)) (Float False 0 0)
     = Float False 14411518807585587200 (- 57)"
  "Float_Sub (Float False 14411518807585587200 (- 57))
             (Float False 9444732965739290427 (- 73))
     = Float False 14411374692397511344 (- 57)"
  by code_simp+

lemma Add_values:
  "Float_Add (Float False 0 0) (Float False 11529215046068469760 (- 58))
     = Float False 11529215046068469760 (- 58)"
  "Float_Add (Float False 14411518807585587200 (- 57))
             (Float False 11529215046068469760 (- 58))
     = Float False 10088063165309911040 (- 56)"
  "Float_Add (Float False 0 0) (Float False 0 0) = Float False 0 0"
  "Float_Add (Float False 0 0) (Float False 9444732965739290427 (- 73))
     = Float False 9444732965739290427 (- 73)"
  "Float_Add (Float False 14411518807585587200 (- 57))
             (Float False 9444732965739290427 (- 73))
     = Float False 14411662922773663056 (- 57)"
  by code_simp+

lemma Text_values:
  "Float_Text (Float False 17293822569102704640 (- 58)) = ''60.00''"
  "Float_Text (Float False 11529215046068469760 (- 58)) = ''40.00''"
  "Float_Text (Float False 10088063165309911040 (- 56)) = ''140.00''"
  "Float_Text (Float False 14411518807585587200 (- 57)) = ''100.00''"
  "Float_Text (Float False 0 0) = ''0.00''"
  "Float_Text (Float False 14411374692397511344 (- 57)) = ''100.00''"
  "Float_Text (Float False 9444732965739290427 (- 73)) = ''0.00''"
  "Float_Text (Float False 14411662922773663056 (- 57)) = ''100.00''"
  by (simp_all add: Float_Text_def hundredths_def Let_def decimal_digits.simps digit_char_def)

lemmas go_values =
  go_lib_def SetString_values trim_space_values Cmp_values Sub_values Add_values Text_values
  Float_Sign_def

lemmas handler_eval =
  HandleTransactionSubmitted_def apply_transfer_def validateAmount_def GetByID_def Update_def
  emit_failed_def PublishTransactionFailed_def PublishTransactionCompleted_def
  PublishWithContext_def EventTransactionFailed_def EventTransactionCompleted_def

section \<open>Retrieving an account\<close>

lemma GetByID_never_nil_nil: "fst (GetByID aid w) \<noteq> (None, None)"
  by (cases "storage_faults w") (auto simp: GetByID_def split: option.splits)

text \<open>
  C9. A request for a positive id that names no account should be answered with 404 and
  the account-not-found error.  The repository reports the missing row as an error of the
  query, so the service never reaches its own not-found branch: with an empty accounts
  table and a working database, a request for account 5 is answered with 500.
\<close>

theorem GetAccount_missing_is_500:
  "fst (GetAccount_handler (Some 5)
          \<lparr>accounts = Map.empty, storage_faults = [], published = [], publish_faults = []\<rparr>)
     = (500, ErrorResponse ''Failed to get account'')
   \<and> fst (GetAccount 5
          \<lparr>accounts = Map.empty, storage_faults = [], published = [], publish_faults = []\<rparr>)
     = Inl (Errorf ''failed to get account'' (Errorf ''failed to get account'' ErrNoRows))"
  by (simp add: GetAccount_handler_def GetAccount_def validateAccountID_def GetByID_def)

section \<open>Submitting a transfer\<close>

lemma SubmitTransaction_same_account:
  "dto_SourceAccountID dto = dto_DestinationAccountID dto \<Longrightarrow>
     SubmitTransaction dto w = (Some ErrSameAccount, w)"
  by (simp add: SubmitTransaction_def)

text \<open>
  The amount takes no part in the decisions of \<open>SubmitTransaction\<close>: two requests that
  differ only in the amount are both accepted or both refused.
\<close>

lemma SubmitTransaction_ignores_amount:
  "fst (SubmitTransaction (dto\<lparr>dto_Amount := amount\<rparr>) w) = fst (SubmitTransaction dto w)"
  by (cases "tx_storage_faults w" rule: next_fault.cases;
      cases "tx_publish_faults w" rule: next_fault.cases)
     (simp_all add: SubmitTransaction_def tx_Create_def PublishTransactionSubmitted_def Let_def)

text \<open>
  C5. A request whose amount is malformed or not positive should be rejected with no row
  persisted and no event published.  A request with equal source and destination is
  rejected so (\<open>SubmitTransaction_same_account\<close>), but the amount is never validated:
  the request for -5.00 from account 1 to account 2 returns no error, persists the
  transaction as pending and publishes its ``submitted'' event.
\<close>

theorem SubmitTransaction_negative_amount_accepted:
  "SubmitTransaction
     \<lparr>dto_SourceAccountID = 1, dto_DestinationAccountID = 2, dto_Amount = ''-5.00''\<rparr>
     empty_ledger
   = (None,
      empty_ledger
        \<lparr>transactions := [1 \<mapsto> \<lparr>tx_ID = 1, tx_SourceAccountID = 1, tx_DestinationAccountID = 2,
                                 tx_Amount = ''-5.00'', tx_Status = ''pending''\<rparr>],
         next_id := 2,
         submitted := [\<lparr>TransactionID = 1, SourceAccountID = 1, DestinationAccountID = 2,
                         Amount = ''-5.00'', Status = ''pending''\<rparr>]\<rparr>)"
  by (simp add: SubmitTransaction_def tx_Create_def PublishTransactionSubmitted_def
        empty_ledger_def TransactionStatusPending_def Let_def)

section \<open>Reconciling the status\<close>

lemma HandleTransactionFailed_unknown_id:
  "transactions w (TransactionID event) = None \<Longrightarrow> tx_storage_faults w = [] \<Longrightarrow>
     HandleTransactionFailed event w = (Returns None, w)"
  by (cases w) (simp add: HandleTransactionFailed_def tx_GetByID_def)

text \<open>
  C7. A terminal event for an id that matches no stored transaction should return
  success.  \<open>HandleTransactionFailed\<close> does (\<open>HandleTransactionFailed_unknown_id\<close>);
  \<open>HandleTransactionCompleted\<close> lacks the test for the missing row and panics: a
  ``completed'' event for id 42 on an empty table, called directly or through the
  subscribed handler.
\<close>

theorem completed_event_for_unknown_id_panics:
  "fst (HandleTransactionCompleted
          \<lparr>TransactionID = 42, SourceAccountID = 1, DestinationAccountID = 2,
           Amount = ''40.00'', Status = ''complete''\<rparr> empty_ledger) = Panics
   \<and> fst (terminal_event_handler
          \<lparr>TransactionID = 42, SourceAccountID = 1, DestinationAccountID = 2,
           Amount = ''40.00'', Status = ''complete''\<rparr> empty_ledger) = Panics
   \<and> fst (HandleTransactionFailed
          \<lparr>TransactionID = 42, SourceAccountID = 1, DestinationAccountID = 2,
           Amount = ''40.00'', Status = ''failed''\<rparr> empty_ledger) = Returns None"
  by (simp add: HandleTransactionCompleted_def HandleTransactionFailed_def tx_GetByID_def
        terminal_event_handler_def TransactionStatusComplete_def empty_ledger_def)

text \<open>
  C3 (as amended). Events reach the two handlers through the handler that \<^verbatim>\<open>main\<close>
  subscribes, which dispatches on the status label of the event.  For a stored
  transaction and a working database, a delivered event whose label is exactly
  \<open>complete\<close> or \<open>failed\<close> sets the stored status to that label, whatever the status
  was, and returns success; an event with any other label (such as the
  \<open>failed: \<dots>\<close> labels the account service publishes) is acknowledged and changes
  nothing.  So a second delivery of the same terminal event leaves the status as it is
  and is no error (the \<^verbatim>\<open>UPDATE\<close> is issued again, which touches the column
  \<^verbatim>\<open>updated_at\<close> that the model leaves out), while the opposite terminal event
  overwrites a terminal status.
\<close>

theorem terminal_event_sets_status:
  assumes "transactions w (TransactionID event) = Some t" and "tx_storage_faults w = []"
  shows "terminal_event_handler event w
           = (Returns None,
              if Status event = TransactionStatusComplete \<or> Status event = TransactionStatusFailed
              then w\<lparr>transactions := (transactions w)(TransactionID event \<mapsto>
                                           t\<lparr>tx_Status := Status event\<rparr>)\<rparr>
              else w)
       \<and> (tx_Status t = Status event \<longrightarrow>
            map_option tx_Status
              (transactions (snd (terminal_event_handler event w)) (TransactionID event))
              = Some (tx_Status t))"
  using assms
  by (cases w)
     (auto simp: terminal_event_handler_def HandleTransactionCompleted_def
        HandleTransactionFailed_def tx_GetByID_def tx_Update_def
        TransactionStatusComplete_def TransactionStatusFailed_def)

theorem terminal_event_sets_status_witness:
  "tx_Status (the (transactions completed_ledger 1)) = ''complete''
   \<and> map_option tx_Status (transactions (snd (terminal_event_handler
        \<lparr>TransactionID = 1, SourceAccountID = 1, DestinationAccountID = 2,
         Amount = ''40.00'', Status = ''complete''\<rparr> completed_ledger)) 1) = Some ''complete''
   \<and> terminal_event_handler
        \<lparr>TransactionID = 1, SourceAccountID = 1, DestinationAccountID = 2,
         Amount = ''40.00'', Status = ''failed''\<rparr> completed_ledger
     = (Returns None,
        completed_ledger
          \<lparr>transactions := [1 \<mapsto> \<lparr>tx_ID = 1, tx_SourceAccountID = 1,
                                   tx_DestinationAccountID = 2, tx_Amount = ''40.00'',
                                   tx_Status = ''failed''\<rparr>]\<rparr>)
   \<and> terminal_event_handler
        \<lparr>TransactionID = 1, SourceAccountID = 1, DestinationAccountID = 2,
         Amount = ''40.00'', Status = ''failed: insufficient funds''\<rparr> completed_ledger
     = (Returns None, completed_ledger)"
  using terminal_event_sets_status [of completed_ledger
      "\<lparr>TransactionID = 1, SourceAccountID = 1, DestinationAccountID = 2,
       Amount = ''40.00'', Status = ''complete''\<rparr>"
      "\<lparr>tx_ID = 1, tx_SourceAccountID = 1, tx_DestinationAccountID = 2,
        tx_Amount = ''40.00'', tx_Status = ''complete''\<rparr>"]
    terminal_event_sets_status [of completed_ledger
      "\<lparr>TransactionID = 1, SourceAccountID = 1, DestinationAccountID = 2,
       Amount = ''40.00'', Status = ''failed''\<rparr>"
      "\<lparr>tx_ID = 1, tx_SourceAccountID = 1, tx_DestinationAccountID = 2,
        tx_Amount = ''40.00'', tx_Status = ''complete''\<rparr>"]
    terminal_event_sets_status [of completed_ledger
      "\<lparr>TransactionID = 1, SourceAccountID = 1, DestinationAccountID = 2,
       Amount = ''40.00'', Status = ''failed: insufficient funds''\<rparr>"
      "\<lparr>tx_ID = 1, tx_SourceAccountID = 1, tx_DestinationAccountID = 2,
        tx_Amount = ''40.00'', tx_Status = ''complete''\<rparr>"]
  by (simp add: completed_ledger_def TransactionStatusComplete_def TransactionStatusFailed_def)

text \<open>
  The claim as stated fails: transaction 1 is complete, a ``failed'' event for it is
  delivered to the subscribed handler, which returns success and leaves the transaction
  failed.
\<close>

theorem terminal_status_overwritten:
  "tx_Status (the (transactions completed_ledger 1)) = ''complete''
   \<and> fst (terminal_event_handler
          \<lparr>TransactionID = 1, SourceAccountID = 1, DestinationAccountID = 2,
           Amount = ''40.00'', Status = ''failed''\<rparr> completed_ledger) = Returns None
   \<and> tx_Status (the (transactions (snd (terminal_event_handler
          \<lparr>TransactionID = 1, SourceAccountID = 1, DestinationAccountID = 2,
           Amount = ''40.00'', Status = ''failed''\<rparr> completed_ledger)) 1)) = ''failed''"
  by (simp add: terminal_event_handler_def HandleTransactionFailed_def tx_GetByID_def
        tx_Update_def completed_ledger_def TransactionStatusComplete_def
        TransactionStatusFailed_def)

section \<open>Bounded retry\<close>

declare consume.simps [simp del]

lemma consume_Nil: "queue ch = [] \<Longrightarrow> consume h (ch, s) = (False, ch, s)"
  by (simp add: consume.simps)

lemma consume_Cons:
  "queue ch = msg # rest \<Longrightarrow> deliver h msg (ch\<lparr>queue := rest\<rparr>, s) = (False, ch', s') \<Longrightarrow>
     consume h (ch, s) = consume h (ch', s')"
  by (simp add: consume.simps)

lemma consume_crash:
  "queue ch = msg # rest \<Longrightarrow> deliver h msg (ch\<lparr>queue := rest\<rparr>, s) = (True, ch', s') \<Longrightarrow>
     consume h (ch, s) = (True, ch', s')"
  by (simp add: consume.simps)

lemma deliver_handled_bound:
  "deliver h msg (ch, s) = (crashed, ch', s') \<Longrightarrow>
     length (handled ch') + (if crashed then 0 else sum_list (map attempts_left (queue ch')))
       \<le> length (handled ch) + attempts_left msg + sum_list (map attempts_left (queue ch))"
  by (auto simp: deliver_def attempts_left_def retry_count_def Let_def
           split: option.splits if_splits prod.splits outcome.splits list.splits
                  amqp_value.splits)

lemma consume_handled_bound:
  "consume h (ch, s) = (crashed, ch', s') \<Longrightarrow>
     length (handled ch') \<le> length (handled ch) + sum_list (map attempts_left (queue ch))"
proof (induction h "(ch, s)" arbitrary: ch s rule: consume.induct)
  case (1 h ch s)
  show ?case
  proof (cases "queue ch")
    case Nil
    with "1.prems" show ?thesis by (simp add: consume_Nil)
  next
    case (Cons msg rest)
    obtain c ch1 s1 where d: "deliver h msg (ch\<lparr>queue := rest\<rparr>, s) = (c, ch1, s1)"
      by (metis prod_cases3)
    from deliver_handled_bound[OF d]
    have b: "length (handled ch1) + (if c then 0 else sum_list (map attempts_left (queue ch1)))
       \<le> length (handled ch) + attempts_left msg + sum_list (map attempts_left rest)"
      by simp
    show ?thesis
    proof (cases c)
      case True
      with d Cons "1.prems" have "ch' = ch1" by (simp add: consume_crash)
      with b True Cons show ?thesis by simp
    next
      case False
      with d Cons "1.prems" have "consume h (ch1, s1) = (crashed, ch', s')"
        by (simp add: consume_Cons)
      from "1.hyps"[OF Cons d[symmetric] refl False this]
      have "length (handled ch') \<le> length (handled ch1) + sum_list (map attempts_left (queue ch1))"
        by simp
      with b False Cons show ?thesis by simp
    qed
  qed
qed

lemma consume_single_failing:
  assumes fails: "\<forall>ev s. \<exists>e s'. h ev s = (Returns (Some e), s')"
  shows "attempts_left msg = n \<Longrightarrow> Body msg = Some ev \<Longrightarrow> queue ch = [msg] \<Longrightarrow>
         republish_faults ch = [] \<Longrightarrow>
         \<exists>s'. consume h (ch, s) =
            (False,
             ch\<lparr>queue := [], dead_letters := dead_letters ch @ [final_copy msg],
                handled := handled ch @ replicate n ev\<rparr>, s')"
proof (induction n arbitrary: msg ch s)
  case 0
  then have rc: "retry_count msg \<ge> 3" by (simp add: attempts_left_def)
  with 0 have "deliver h msg (ch\<lparr>queue := []\<rparr>, s)
      = (False, ch\<lparr>queue := [], dead_letters := dead_letters ch @ [msg]\<rparr>, s)"
    by (simp add: deliver_def)
  with 0 rc show ?case
    by (simp add: consume_Cons consume_Nil final_copy_def)
next
  case (Suc n)
  then have rc: "retry_count msg < 3" and n: "n = nat (2 - retry_count msg)"
    by (auto simp: attempts_left_def)
  from fails obtain e s1 where h: "h ev s = (Returns (Some e), s1)" by blast
  show ?case
  proof (cases "retry_count msg = 2")
    case True
    with Suc h have "deliver h msg (ch\<lparr>queue := []\<rparr>, s)
      = (False, ch\<lparr>queue := [], dead_letters := dead_letters ch @ [msg],
                    handled := handled ch @ [ev]\<rparr>, s1)"
      by (simp add: deliver_def)
    with Suc True n show ?thesis
      by (simp add: consume_Cons consume_Nil final_copy_def)
  next
    case False
    with rc have rc2: "retry_count msg < 2" by simp
    define msg' where "msg' = \<lparr>Body = Body msg,
        Headers = [(''x-retry-count'', Int32 (retry_count msg + 1))]\<rparr>"
    define ch1 where "ch1 = ch\<lparr>queue := [msg'], handled := handled ch @ [ev]\<rparr>"
    have rc': "retry_count msg' = retry_count msg + 1"
      by (simp add: msg'_def retry_count_def)
    from Suc h rc2 have d: "deliver h msg (ch\<lparr>queue := []\<rparr>, s) = (False, ch1, s1)"
      by (cases ch) (simp add: deliver_def Let_def ch1_def msg'_def)
    have "attempts_left msg' = n" using n rc2 rc' by (simp add: attempts_left_def)
    moreover have "Body msg' = Some ev" using Suc by (simp add: msg'_def)
    moreover have "queue ch1 = [msg']" by (simp add: ch1_def)
    moreover have "republish_faults ch1 = []" using Suc by (simp add: ch1_def)
    ultimately obtain s' where
      "consume h (ch1, s1) =
            (False,
             ch1\<lparr>queue := [], dead_letters := dead_letters ch1 @ [final_copy msg'],
                handled := handled ch1 @ replicate n ev\<rparr>, s')"
      using Suc.IH by blast
    moreover have "final_copy msg' = final_copy msg"
      using rc2 rc' by (auto simp: final_copy_def msg'_def)
    ultimately show ?thesis using d Suc.prems
      by (simp add: consume_Cons ch1_def)
  qed
qed

text \<open>
  C4 (as amended). A queue holds one message with a decodable body and a retry count that
  is absent or not negative, and the handler fails on every call.  Then the consumer calls
  the handler at most 3 times, however the republishing goes.  If every republish is
  accepted, the handler is called exactly 3 times less the retry count the message came
  with, the queue ends empty and the message (its last copy) is in the dead-letter queue.
\<close>

theorem bounded_retry:
  assumes "\<forall>ev s. \<exists>e s'. h ev s = (Returns (Some e), s')"
    and "Body msg = Some ev" and "0 \<le> retry_count msg" and "queue ch = [msg]"
    and "consume h (ch, s) = (crashed, ch', s')"
  shows "length (handled ch') \<le> length (handled ch) + 3
       \<and> (republish_faults ch = [] \<longrightarrow>
            \<not> crashed \<and> queue ch' = []
            \<and> dead_letters ch' = dead_letters ch @ [final_copy msg]
            \<and> handled ch' = handled ch @ replicate (nat (3 - retry_count msg)) ev)"
proof
  from consume_handled_bound[OF assms(5)] assms(3,4)
  show "length (handled ch') \<le> length (handled ch) + 3"
    by (simp add: attempts_left_def)
next
  show "republish_faults ch = [] \<longrightarrow>
            \<not> crashed \<and> queue ch' = []
            \<and> dead_letters ch' = dead_letters ch @ [final_copy msg]
            \<and> handled ch' = handled ch @ replicate (nat (3 - retry_count msg)) ev"
  proof
    assume "republish_faults ch = []"
    from consume_single_failing[OF assms(1) refl assms(2) assms(4) this, of s] assms(5)
    show "\<not> crashed \<and> queue ch' = []
            \<and> dead_letters ch' = dead_letters ch @ [final_copy msg]
            \<and> handled ch' = handled ch @ replicate (nat (3 - retry_count msg)) ev"
      by (auto simp: attempts_left_def)
  qed
qed


theorem bounded_retry_witness:
  "consume failing_handler (one_message (fresh_delivery (transfer 1 2 ''40.00'')) [], ())
     = (False,
        \<lparr>queue = [],
         dead_letters = [\<lparr>Body = Some (transfer 1 2 ''40.00''),
                          Headers = [(''x-retry-count'', Int32 2)]\<rparr>],
         republish_faults = [],
         handled = [transfer 1 2 ''40.00'', transfer 1 2 ''40.00'', transfer 1 2 ''40.00'']\<rparr>,
        ())"
  using bounded_retry [of failing_handler "fresh_delivery (transfer 1 2 ''40.00'')"
      "transfer 1 2 ''40.00''" "one_message (fresh_delivery (transfer 1 2 ''40.00'')) []" "()"
      "fst (consume failing_handler (one_message (fresh_delivery (transfer 1 2 ''40.00'')) [], ()))"
      "fst (snd (consume failing_handler (one_message (fresh_delivery (transfer 1 2 ''40.00'')) [], ())))"
      "snd (snd (consume failing_handler (one_message (fresh_delivery (transfer 1 2 ''40.00'')) [], ())))"]
  by (simp add: failing_handler_def fresh_delivery_def one_message_def retry_count_def
        final_copy_def consume.simps deliver_def)

text \<open>
  The claim as stated fails in two ways.  When the channel refuses the republish after the
  first failure, the original is acknowledged all the same: the message is in neither
  queue and the handler has been called once.  And a message that arrives with a retry
  count of -1 is handled 4 times.
\<close>

theorem failed_republish_loses_message:
  "consume failing_handler (one_message (fresh_delivery (transfer 1 2 ''40.00'')) [True], ())
     = (False,
        \<lparr>queue = [], dead_letters = [], republish_faults = [],
         handled = [transfer 1 2 ''40.00'']\<rparr>, ())
   \<and> length (handled (fst (snd (consume failing_handler
        (one_message \<lparr>Body = Some (transfer 1 2 ''40.00''),
                       Headers = [(''x-retry-count'', Int32 (- 1))]\<rparr> [], ()))))) = 4"
  by (simp add: failing_handler_def fresh_delivery_def one_message_def retry_count_def
        consume.simps deliver_def)

section \<open>The handler of ``submitted'' events, path by path\<close>

lemma GetByID_frame:
  "GetByID aid w = (r, w') \<Longrightarrow>
     accounts w' = accounts w \<and> published w' = published w \<and> publish_faults w' = publish_faults w
     \<and> storage_faults w' = snd (next_fault (storage_faults w))"
  by (auto simp: GetByID_def split: prod.splits)

lemma GetByID_found:
  "GetByID aid w = ((Some account, e), w') \<Longrightarrow>
     e = None \<and> ID account = aid \<and> accounts w aid = Some (Balance account)"
  by (auto simp: GetByID_def split: prod.splits if_splits option.splits)

lemma emit_failed_frame:
  "accounts (emit_failed event status w) = accounts w
   \<and> storage_faults (emit_failed event status w) = storage_faults w"
  by (simp add: emit_failed_def PublishTransactionFailed_def PublishWithContext_def
           split: prod.splits)

lemma emit_failed_published:
  "publish_faults w = [] \<Longrightarrow>
     published (emit_failed event status w)
       = published w @ [(EventTransactionFailed, event\<lparr>Status := status\<rparr>)]
     \<and> publish_faults (emit_failed event status w) = []"
  by (simp add: emit_failed_def PublishTransactionFailed_def PublishWithContext_def)

lemma Update_accounts:
  "Update account w = (None, w') \<Longrightarrow>
     accounts w' = (if accounts w (ID account) = None then accounts w
                    else (accounts w)(ID account \<mapsto> Balance account))
     \<and> published w' = published w \<and> publish_faults w' = publish_faults w"
  by (auto simp: Update_def split: prod.splits if_splits option.splits)

lemma Update_failed:
  "Update account w = (Some err, w') \<Longrightarrow>
     accounts w' = accounts w \<and> published w' = published w
     \<and> publish_faults w' = publish_faults w
     \<and> err = Errorf ''failed to update account'' ErrStorage"
  by (auto simp: Update_def split: prod.splits if_splits)

lemma PublishTransactionCompleted_frame:
  "accounts (snd (PublishTransactionCompleted event w)) = accounts w"
  by (simp add: PublishTransactionCompleted_def PublishWithContext_def split: prod.splits)

lemma apply_transfer_failure:
  assumes "apply_transfer lib event sourceAccount destAccount w = (Returns (Some err), w')"
  shows "accounts w' = accounts w
       \<or> (err = Errorf ''failed to update destination account''
                   (Errorf ''failed to update account'' ErrStorage)
          \<and> (\<exists>x a x'. SetString lib (Balance sourceAccount) = Some x
                \<and> SetString lib (Amount event) = Some a \<and> Sub lib x a = Some x'
                \<and> accounts w' = (if accounts w (ID sourceAccount) = None then accounts w
                       else (accounts w)(ID sourceAccount \<mapsto> Text lib x'))))"
  using assms
  by (auto simp: apply_transfer_def emit_failed_frame
           split: option.splits if_splits prod.splits
           dest!: Update_accounts Update_failed)

lemma apply_transfer_panics:
  "apply_transfer lib event sourceAccount destAccount w = (Panics, w') \<Longrightarrow> w' = w"
  by (auto simp: apply_transfer_def split: option.splits if_splits prod.splits)

lemma apply_transfer_completed:
  assumes "apply_transfer lib event sourceAccount destAccount w = (Returns None, w')"
    and "accounts w (ID sourceAccount) \<noteq> None" and "accounts w (ID destAccount) \<noteq> None"
  shows "\<exists>x a y x' y'.
           SetString lib (Balance sourceAccount) = Some x
         \<and> SetString lib (Amount event) = Some a
         \<and> SetString lib (Balance destAccount) = Some y
         \<and> 0 \<le> Cmp lib x a \<and> Sub lib x a = Some x' \<and> Add lib y a = Some y'
         \<and> accounts w' = (accounts w)(ID sourceAccount \<mapsto> Text lib x',
                                       ID destAccount \<mapsto> Text lib y')"
  using assms
  by (auto simp: apply_transfer_def PublishTransactionCompleted_frame
           split: option.splits if_splits prod.splits
           dest!: Update_accounts Update_failed)


lemma apply_transfer_published:
  assumes "apply_transfer lib event sourceAccount destAccount w = (Returns None, w')"
    and "publish_faults w = []"
  shows "published w' = published w @ [(EventTransactionCompleted, event\<lparr>Status := ''complete''\<rparr>)]"
  using assms
  by (auto simp: apply_transfer_def PublishTransactionCompleted_def PublishWithContext_def
           split: option.splits if_splits prod.splits
           dest!: Update_accounts Update_failed)

lemma handler_cases:
  obtains
    (source_error) r1 e w1 where "GetByID (SourceAccountID event) w = ((r1, Some e), w1)"
      "HandleTransactionSubmitted lib event w =
         (Returns (Some (Errorf ''failed to get source account'' e)),
          emit_failed event ''failed: source account not found'' w1)"
  | (source_nil) w1 where "GetByID (SourceAccountID event) w = ((None, None), w1)"
  | (dest_error) sourceAccount w1 r2 e w2 where
      "GetByID (SourceAccountID event) w = ((Some sourceAccount, None), w1)"
      "GetByID (DestinationAccountID event) w1 = ((r2, Some e), w2)"
      "HandleTransactionSubmitted lib event w =
         (Returns (Some (Errorf ''failed to get destination account'' e)),
          emit_failed event ''failed: destination account not found'' w2)"
  | (dest_nil) sourceAccount w1 w2 where
      "GetByID (SourceAccountID event) w = ((Some sourceAccount, None), w1)"
      "GetByID (DestinationAccountID event) w1 = ((None, None), w2)"
  | (invalid) sourceAccount w1 destAccount w2 verr where
      "GetByID (SourceAccountID event) w = ((Some sourceAccount, None), w1)"
      "GetByID (DestinationAccountID event) w1 = ((Some destAccount, None), w2)"
      "validateAmount lib (Amount event) = Some verr"
      "HandleTransactionSubmitted lib event w =
         (Returns (Some (Errorf ''invalid amount'' verr)),
          emit_failed event ''failed: invalid amount'' w2)"
  | (transfer) sourceAccount w1 destAccount w2 where
      "GetByID (SourceAccountID event) w = ((Some sourceAccount, None), w1)"
      "GetByID (DestinationAccountID event) w1 = ((Some destAccount, None), w2)"
      "validateAmount lib (Amount event) = None"
      "HandleTransactionSubmitted lib event w
         = apply_transfer lib event sourceAccount destAccount w2"
proof -
  obtain r1 e1 w1 where g1: "GetByID (SourceAccountID event) w = ((r1, e1), w1)"
    by (metis surj_pair)
  obtain r2 e2 w2 where g2: "GetByID (DestinationAccountID event) w1 = ((r2, e2), w2)"
    by (metis surj_pair)
  show thesis
  proof (cases e1)
    case (Some e)
    with g1 source_error show ?thesis
      by (cases r1) (simp_all add: HandleTransactionSubmitted_def)
  next
    case None
    note e1 = None
    show ?thesis
    proof (cases r1)
      case None
      with g1 e1 source_nil show ?thesis by simp
    next
      case (Some sourceAccount)
      note r1 = Some
      show ?thesis
      proof (cases e2)
        case (Some e)
        with g1 g2 e1 r1 dest_error show ?thesis
          by (cases r2) (simp_all add: HandleTransactionSubmitted_def)
      next
        case None
        note e2 = None
        show ?thesis
        proof (cases r2)
          case None
          with g1 g2 e1 e2 r1 dest_nil show ?thesis by simp
        next
          case (Some destAccount)
          with g1 g2 e1 e2 r1 invalid transfer show ?thesis
            by (cases "validateAmount lib (Amount event)")
               (simp_all add: HandleTransactionSubmitted_def)
        qed
      qed
    qed
  qed
qed

lemma GetByID_error:
  "GetByID aid w = ((r, Some e), w1) \<Longrightarrow> storage_faults w = [] \<Longrightarrow> accounts w aid = None"
  by (auto simp: GetByID_def split: option.splits)

lemma GetByID_working:
  "storage_faults w = [] \<Longrightarrow>
     GetByID aid w =
       ((case accounts w aid of
           None \<Rightarrow> (None, Some (Errorf ''failed to get account'' ErrNoRows))
         | Some b \<Rightarrow> (Some \<lparr>ID = aid, Balance = b\<rparr>, None)), w)"
  by (cases w) (simp add: GetByID_def)

lemma Update_working:
  "storage_faults w = [] \<Longrightarrow> accounts w (ID account) \<noteq> None \<Longrightarrow>
     Update account w = (None, w\<lparr>accounts := (accounts w)(ID account \<mapsto> Balance account)\<rparr>)"
  by (cases w) (auto simp: Update_def)

lemma emit_failed_working:
  "publish_faults w = [] \<Longrightarrow>
     emit_failed event status w
       = w\<lparr>published := published w @ [(EventTransactionFailed, event\<lparr>Status := status\<rparr>)]\<rparr>"
  by (cases w) (simp add: emit_failed_def PublishTransactionFailed_def PublishWithContext_def)

lemma PublishTransactionCompleted_working:
  "publish_faults w = [] \<Longrightarrow>
     snd (PublishTransactionCompleted event w)
       = w\<lparr>published := published w @ [(EventTransactionCompleted, event)]\<rparr>"
  by (cases w) (simp add: PublishTransactionCompleted_def PublishWithContext_def)

section \<open>A transfer that fails\<close>

text \<open>
  C2 (as amended). Whenever the handler of a ``submitted'' event returns an error, the
  balance of every account other than the source is as before the attempt; and unless the
  error is that of the destination write, the balance of the source is as before too.
  (After a failed destination write the source write has already been persisted.)
\<close>

theorem failed_transfer_balances:
  assumes "HandleTransactionSubmitted lib event w = (Returns (Some err), w')"
  shows "(err \<noteq> destination_write_error \<longrightarrow> accounts w' = accounts w)
       \<and> (\<forall>aid. aid \<noteq> SourceAccountID event \<longrightarrow> accounts w' aid = accounts w aid)"
proof (cases rule: handler_cases[where event=event and w=w and lib=lib])
  case (source_error r1 e w1)
  with assms GetByID_frame[OF source_error(1)] show ?thesis
    by (auto simp: emit_failed_frame)
next
  case (source_nil w1)
  with GetByID_never_nil_nil[of "SourceAccountID event" w] show ?thesis by simp
next
  case (dest_error sourceAccount w1 r2 e w2)
  with assms GetByID_frame[OF dest_error(1)] GetByID_frame[OF dest_error(2)] show ?thesis
    by (auto simp: emit_failed_frame)
next
  case (dest_nil sourceAccount w1 w2)
  with GetByID_never_nil_nil[of "DestinationAccountID event" w1] show ?thesis by simp
next
  case (invalid sourceAccount w1 destAccount w2 verr)
  with assms GetByID_frame[OF invalid(1)] GetByID_frame[OF invalid(2)] show ?thesis
    by (auto simp: emit_failed_frame)
next
  case (transfer sourceAccount w1 destAccount w2)
  from transfer(4) assms
  have a: "apply_transfer lib event sourceAccount destAccount w2 = (Returns (Some err), w')"
    by simp
  have f: "accounts w2 = accounts w"
    using GetByID_frame[OF transfer(1)] GetByID_frame[OF transfer(2)] by simp
  have i: "ID sourceAccount = SourceAccountID event"
    using GetByID_found[OF transfer(1)] by simp
  from apply_transfer_failure[OF a] f i show ?thesis
    by (auto simp: destination_write_error_def)
qed


theorem failed_transfer_balances_witness:
  "fst (HandleTransactionSubmitted go_lib (transfer 1 2 ''150.00'') two_accounts)
     = Returns (Some ErrInsufficientFunds)
   \<and> accounts (snd (HandleTransactionSubmitted go_lib (transfer 1 2 ''150.00'') two_accounts))
     = accounts two_accounts"
proof -
  have run: "fst (HandleTransactionSubmitted go_lib (transfer 1 2 ''150.00'') two_accounts)
     = Returns (Some ErrInsufficientFunds)"
    by (simp add: handler_eval go_values transfer_def two_accounts_def)
  then have "HandleTransactionSubmitted go_lib (transfer 1 2 ''150.00'') two_accounts
     = (Returns (Some ErrInsufficientFunds),
        snd (HandleTransactionSubmitted go_lib (transfer 1 2 ''150.00'') two_accounts))"
    by (metis prod.collapse)
  from failed_transfer_balances [OF this] run show ?thesis
    by (simp add: destination_write_error_def)
qed

text \<open>
  The claim as stated fails: the transfer of 40.00 from account 1 to account 2, with the
  database failing on its fourth call (the write of the destination), ends in failure
  with a ``failed'' event, and account 1 is left at 60.00.
\<close>

theorem destination_write_failure_keeps_debit:
  "fst (HandleTransactionSubmitted go_lib (transfer 1 2 ''40.00'')
          (two_accounts\<lparr>storage_faults := [False, False, False, True]\<rparr>))
     = Returns (Some (Errorf ''failed to update destination account''
                        (Errorf ''failed to update account'' ErrStorage)))
   \<and> accounts two_accounts 1 = Some ''100.00''
   \<and> accounts (snd (HandleTransactionSubmitted go_lib (transfer 1 2 ''40.00'')
          (two_accounts\<lparr>storage_faults := [False, False, False, True]\<rparr>))) 1 = Some ''60.00''
   \<and> accounts (snd (HandleTransactionSubmitted go_lib (transfer 1 2 ''40.00'')
          (two_accounts\<lparr>storage_faults := [False, False, False, True]\<rparr>))) 2 = Some ''0.00''
   \<and> published (snd (HandleTransactionSubmitted go_lib (transfer 1 2 ''40.00'')
          (two_accounts\<lparr>storage_faults := [False, False, False, True]\<rparr>)))
     = [(''transaction.failed'',
         (transfer 1 2 ''40.00'')\<lparr>Status := ''failed: could not update destination account''\<rparr>)]"
  by (simp add: handler_eval go_values transfer_def two_accounts_def)

section \<open>An invalid amount\<close>

lemma validateAmount_fails_iff:
  "validateAmount lib amount \<noteq> None \<longleftrightarrow>
     TrimSpace lib amount = []
     \<or> (case SetString lib (TrimSpace lib amount) of None \<Rightarrow> True | Some v \<Rightarrow> Sign lib v < 0)"
  by (simp add: validateAmount_def Let_def split: option.splits)

text \<open>
  C8 (as amended). When \<open>validateAmount\<close> refuses the amount of a ``submitted'' event
  (the trimmed text is empty, or is not a number, or is a negative number) and the channel
  accepts the publish, the handler returns an error, writes no balance, and publishes one
  ``failed'' event; when both accounts are there and the database works, the event says
  \<open>failed: invalid amount\<close>.  An amount of zero is not refused.
\<close>

theorem invalid_amount_rejected:
  assumes "validateAmount lib (Amount event) = Some verr" and "publish_faults w = []"
  shows "\<exists>err reason w'.
           HandleTransactionSubmitted lib event w = (Returns (Some err), w')
         \<and> accounts w' = accounts w
         \<and> published w' = published w @ [(EventTransactionFailed, event\<lparr>Status := reason\<rparr>)]
         \<and> (reason = ''failed: source account not found''
            \<or> reason = ''failed: destination account not found''
            \<or> reason = ''failed: invalid amount'')
         \<and> (accounts w (SourceAccountID event) \<noteq> None
            \<and> accounts w (DestinationAccountID event) \<noteq> None \<and> storage_faults w = []
            \<longrightarrow> err = Errorf ''invalid amount'' verr \<and> reason = ''failed: invalid amount'')"
proof (cases rule: handler_cases[where event=event and w=w and lib=lib])
  case (source_error r1 e w1)
  with assms GetByID_frame[OF source_error(1)] GetByID_error[OF source_error(1)]
  show ?thesis by (auto simp: emit_failed_frame emit_failed_published)
next
  case (source_nil w1)
  with GetByID_never_nil_nil[of "SourceAccountID event" w] show ?thesis by simp
next
  case (dest_error sourceAccount w1 r2 e w2)
  have "storage_faults w = [] \<Longrightarrow> storage_faults w1 = []"
    using GetByID_frame[OF dest_error(1)] by simp
  with assms dest_error GetByID_frame[OF dest_error(1)] GetByID_frame[OF dest_error(2)]
    GetByID_error[OF dest_error(2)]
  show ?thesis by (auto simp: emit_failed_frame emit_failed_published)
next
  case (dest_nil sourceAccount w1 w2)
  with GetByID_never_nil_nil[of "DestinationAccountID event" w1] show ?thesis by simp
next
  case (invalid sourceAccount w1 destAccount w2 verr')
  with assms GetByID_frame[OF invalid(1)] GetByID_frame[OF invalid(2)]
  show ?thesis by (auto simp: emit_failed_frame emit_failed_published)
next
  case (transfer sourceAccount w1 destAccount w2)
  with assms show ?thesis by simp
qed

theorem invalid_amount_rejected_witness:
  "validateAmount go_lib ''-5.00'' = Some ErrNegativeAmount
   \<and> HandleTransactionSubmitted go_lib (transfer 1 2 ''-5.00'') two_accounts
     = (Returns (Some (Errorf ''invalid amount'' ErrNegativeAmount)),
        two_accounts\<lparr>published :=
          [(''transaction.failed'',
            (transfer 1 2 ''-5.00'')\<lparr>Status := ''failed: invalid amount''\<rparr>)]\<rparr>)"
proof -
  have v: "validateAmount go_lib (Amount (transfer 1 2 ''-5.00'')) = Some ErrNegativeAmount"
    by (simp add: validateAmount_def go_values transfer_def)
  have p: "publish_faults two_accounts = []" by (simp add: two_accounts_def)
  from invalid_amount_rejected [OF v p] v show ?thesis
    by (simp add: handler_eval go_values transfer_def two_accounts_def)
qed

text \<open>
  The claim as stated fails at zero: \<open>validateAmount\<close> accepts \<open>0\<close> and \<open>0.00\<close>, and the
  event with amount \<open>0\<close> is processed as a transfer: the handler returns success, writes
  both balances and publishes a ``completed'' event.
\<close>

theorem zero_amount_accepted:
  "validateAmount go_lib ''0'' = None \<and> validateAmount go_lib ''0.00'' = None
   \<and> HandleTransactionSubmitted go_lib (transfer 1 2 ''0'') two_accounts
     = (Returns None,
        two_accounts\<lparr>published :=
          [(''transaction.completed'', (transfer 1 2 ''0'')\<lparr>Status := ''complete''\<rparr>)]\<rparr>)"
  by (simp add: handler_eval go_values transfer_def two_accounts_def)

section \<open>Business failures and the retry envelope\<close>

lemma business_failure_result:
  assumes "business_failure lib event w" and "storage_faults w = []" and "publish_faults w = []"
  shows "\<exists>err reason.
           HandleTransactionSubmitted lib event w
             = (Returns (Some err),
                w\<lparr>published := published w @
                     [(EventTransactionFailed, event\<lparr>Status := reason\<rparr>)]\<rparr>)
         \<and> (reason = ''failed: source account not found''
            \<or> reason = ''failed: destination account not found''
            \<or> reason = ''failed: insufficient funds'')"
  using assms
  by (auto simp: business_failure_def HandleTransactionSubmitted_def apply_transfer_def
        GetByID_working emit_failed_working
        split: option.splits)

text \<open>
  C6 (as amended). For a ``submitted'' event that fails for a business reason, with the
  database and the channel working, the handler publishes a ``failed'' event, leaves the
  accounts as they are and returns an error.  The consumer treats that error as any
  other: a delivery with a retry count below 2 is acknowledged and republished with the
  count raised by one, so the handler is called again for it; a delivery with a retry
  count of 2 is moved to the dead-letter queue.
\<close>

theorem business_failure_is_retried:
  assumes "business_failure lib event w" and "storage_faults w = []" and "publish_faults w = []"
    and "Body msg = Some event" and "retry_count msg < 3" and "republish_faults ch = []"
  shows "\<exists>err reason.
           HandleTransactionSubmitted lib event w
             = (Returns (Some err),
                w\<lparr>published := published w @
                     [(EventTransactionFailed, event\<lparr>Status := reason\<rparr>)]\<rparr>)
         \<and> deliver (HandleTransactionSubmitted lib) msg (ch, w)
             = (False,
                (if retry_count msg < 2
                 then ch\<lparr>queue := queue ch @
                          [\<lparr>Body = Some event,
                            Headers = [(''x-retry-count'', Int32 (retry_count msg + 1))]\<rparr>],
                        handled := handled ch @ [event]\<rparr>
                 else ch\<lparr>dead_letters := dead_letters ch @ [msg],
                        handled := handled ch @ [event]\<rparr>),
                w\<lparr>published := published w @
                     [(EventTransactionFailed, event\<lparr>Status := reason\<rparr>)]\<rparr>)"
proof -
  from business_failure_result[OF assms(1-3)] obtain err reason where
    h: "HandleTransactionSubmitted lib event w
             = (Returns (Some err),
                w\<lparr>published := published w @
                     [(EventTransactionFailed, event\<lparr>Status := reason\<rparr>)]\<rparr>)"
    by blast
  with assms(4-6) show ?thesis
    by (cases ch) (auto simp: deliver_def Let_def)
qed

theorem business_failure_is_retried_witness:
  "business_failure go_lib (transfer 1 2 ''150.00'') two_accounts
   \<and> deliver (HandleTransactionSubmitted go_lib) (fresh_delivery (transfer 1 2 ''150.00''))
        (\<lparr>queue = [], dead_letters = [], republish_faults = [], handled = []\<rparr>, two_accounts)
     = (False,
        \<lparr>queue = [\<lparr>Body = Some (transfer 1 2 ''150.00''),
                    Headers = [(''x-retry-count'', Int32 1)]\<rparr>],
         dead_letters = [], republish_faults = [], handled = [transfer 1 2 ''150.00'']\<rparr>,
        two_accounts\<lparr>published :=
          [(''transaction.failed'',
            (transfer 1 2 ''150.00'')\<lparr>Status := ''failed: insufficient funds''\<rparr>)]\<rparr>)"
proof -
  have b: "business_failure go_lib (transfer 1 2 ''150.00'') two_accounts"
    by (simp add: business_failure_def validateAmount_def go_values transfer_def
          two_accounts_def)
  have h: "HandleTransactionSubmitted go_lib (transfer 1 2 ''150.00'') two_accounts
     = (Returns (Some ErrInsufficientFunds),
        two_accounts\<lparr>published :=
          [(''transaction.failed'',
            (transfer 1 2 ''150.00'')\<lparr>Status := ''failed: insufficient funds''\<rparr>)]\<rparr>)"
    by (simp add: handler_eval go_values transfer_def two_accounts_def)
  from business_failure_is_retried [OF b, of "fresh_delivery (transfer 1 2 ''150.00'')"
      "\<lparr>queue = [], dead_letters = [], republish_faults = [], handled = []\<rparr>"] b h
  show ?thesis
    by (simp add: deliver_def two_accounts_def fresh_delivery_def retry_count_def)
qed

text \<open>
  The claim as stated fails: the transfer of 150.00 from account 1, which holds 100.00, is
  not acknowledged for good after its first failure.  The consumer calls the handler for
  it three times, each call publishing a ``failed'' event, before the message reaches the
  dead-letter queue.
\<close>

lemma insufficient_funds_run:
  "HandleTransactionSubmitted go_lib (transfer 1 2 ''150.00'') (two_accounts\<lparr>published := p\<rparr>)
     = (Returns (Some ErrInsufficientFunds),
        two_accounts\<lparr>published := p @
          [(''transaction.failed'',
            (transfer 1 2 ''150.00'')\<lparr>Status := ''failed: insufficient funds''\<rparr>)]\<rparr>)"
  by (simp add: handler_eval go_values transfer_def two_accounts_def)

theorem insufficient_funds_handled_three_times:
  "consume (HandleTransactionSubmitted go_lib)
     (one_message (fresh_delivery (transfer 1 2 ''150.00'')) [], two_accounts\<lparr>published := []\<rparr>)
   = (False,
      \<lparr>queue = [],
       dead_letters = [\<lparr>Body = Some (transfer 1 2 ''150.00''),
                        Headers = [(''x-retry-count'', Int32 2)]\<rparr>],
       republish_faults = [],
       handled = [transfer 1 2 ''150.00'', transfer 1 2 ''150.00'', transfer 1 2 ''150.00'']\<rparr>,
      two_accounts\<lparr>published :=
        [(''transaction.failed'',
          (transfer 1 2 ''150.00'')\<lparr>Status := ''failed: insufficient funds''\<rparr>),
         (''transaction.failed'',
          (transfer 1 2 ''150.00'')\<lparr>Status := ''failed: insufficient funds''\<rparr>),
         (''transaction.failed'',
          (transfer 1 2 ''150.00'')\<lparr>Status := ''failed: insufficient funds''\<rparr>)]\<rparr>)"
  by (simp add: consume.simps deliver_def insufficient_funds_run fresh_delivery_def
        one_message_def retry_count_def)

section \<open>A transfer that completes\<close>

lemma completed_transfer_writes:
  assumes "HandleTransactionSubmitted lib event w = (Returns None, w')"
  shows "\<exists>sb db x a y x' y'.
           accounts w (SourceAccountID event) = Some sb
         \<and> accounts w (DestinationAccountID event) = Some db
         \<and> SetString lib sb = Some x \<and> SetString lib (Amount event) = Some a
         \<and> SetString lib db = Some y
         \<and> 0 \<le> Cmp lib x a \<and> Sub lib x a = Some x' \<and> Add lib y a = Some y'
         \<and> accounts w' = (accounts w)(SourceAccountID event \<mapsto> Text lib x',
                                       DestinationAccountID event \<mapsto> Text lib y')"
proof (cases rule: handler_cases[where event=event and w=w and lib=lib])
  case (source_error r1 e w1)
  with assms show ?thesis by simp
next
  case (source_nil w1)
  with GetByID_never_nil_nil[of "SourceAccountID event" w] show ?thesis by simp
next
  case (dest_error sourceAccount w1 r2 e w2)
  with assms show ?thesis by simp
next
  case (dest_nil sourceAccount w1 w2)
  with GetByID_never_nil_nil[of "DestinationAccountID event" w1] show ?thesis by simp
next
  case (invalid sourceAccount w1 destAccount w2 verr)
  with assms show ?thesis by simp
next
  case (transfer sourceAccount w1 destAccount w2)
  from transfer(4) assms
  have a: "apply_transfer lib event sourceAccount destAccount w2 = (Returns None, w')"
    by simp
  have f: "accounts w1 = accounts w" "accounts w2 = accounts w"
    using GetByID_frame[OF transfer(1)] GetByID_frame[OF transfer(2)] by simp_all
  have s: "ID sourceAccount = SourceAccountID event"
      "accounts w (SourceAccountID event) = Some (Balance sourceAccount)"
    using GetByID_found[OF transfer(1)] by simp_all
  have d: "ID destAccount = DestinationAccountID event"
      "accounts w (DestinationAccountID event) = Some (Balance destAccount)"
    using GetByID_found[OF transfer(2)] f by simp_all
  from apply_transfer_completed[OF a] f s d show ?thesis by auto
qed

text \<open>
  C1 (as amended). When the handler of a ``submitted'' event with different source and
  destination returns success, both accounts existed, the three texts were read as
  numbers, the source balance was not below the amount, and the balances persisted are
  \<^verbatim>\<open>Text('f', 2)\<close> of the library's difference of source balance and amount and of its sum
  of destination balance and amount; no other account changes.
\<close>

theorem completed_transfer_balances:
  assumes "HandleTransactionSubmitted lib event w = (Returns None, w')"
    and "SourceAccountID event \<noteq> DestinationAccountID event"
  shows "\<exists>sb db x a y x' y'.
           accounts w (SourceAccountID event) = Some sb
         \<and> accounts w (DestinationAccountID event) = Some db
         \<and> SetString lib sb = Some x \<and> SetString lib (Amount event) = Some a
         \<and> SetString lib db = Some y
         \<and> 0 \<le> Cmp lib x a \<and> Sub lib x a = Some x' \<and> Add lib y a = Some y'
         \<and> accounts w' (SourceAccountID event) = Some (Text lib x')
         \<and> accounts w' (DestinationAccountID event) = Some (Text lib y')
         \<and> (\<forall>aid. aid \<noteq> SourceAccountID event \<and> aid \<noteq> DestinationAccountID event
                \<longrightarrow> accounts w' aid = accounts w aid)"
proof -
  from completed_transfer_writes[OF assms(1)] obtain sb db x a y x' y' where
    "accounts w (SourceAccountID event) = Some sb"
    "accounts w (DestinationAccountID event) = Some db"
    "SetString lib sb = Some x" "SetString lib (Amount event) = Some a"
    "SetString lib db = Some y"
    "0 \<le> Cmp lib x a" "Sub lib x a = Some x'" "Add lib y a = Some y'"
    "accounts w' = (accounts w)(SourceAccountID event \<mapsto> Text lib x',
                                DestinationAccountID event \<mapsto> Text lib y')"
    by blast
  with assms(2) show ?thesis by auto
qed

theorem completed_transfer_balances_witness:
  "HandleTransactionSubmitted go_lib (transfer 1 2 ''40.00'') two_accounts
     = (Returns None,
        two_accounts
          \<lparr>accounts := [1 \<mapsto> ''100.00'', 2 \<mapsto> ''0.00'', 1 \<mapsto> ''60.00'', 2 \<mapsto> ''40.00''],
           published :=
             [(''transaction.completed'', (transfer 1 2 ''40.00'')\<lparr>Status := ''complete''\<rparr>)]\<rparr>)
   \<and> accounts (snd (HandleTransactionSubmitted go_lib (transfer 1 2 ''40.00'') two_accounts)) 1
     = Some ''60.00''
   \<and> accounts (snd (HandleTransactionSubmitted go_lib (transfer 1 2 ''40.00'') two_accounts)) 2
     = Some ''40.00''"
proof -
  have run: "HandleTransactionSubmitted go_lib (transfer 1 2 ''40.00'') two_accounts
     = (Returns None,
        two_accounts
          \<lparr>accounts := [1 \<mapsto> ''100.00'', 2 \<mapsto> ''0.00'', 1 \<mapsto> ''60.00'', 2 \<mapsto> ''40.00''],
           published :=
             [(''transaction.completed'', (transfer 1 2 ''40.00'')\<lparr>Status := ''complete''\<rparr>)]\<rparr>)"
    by (simp add: handler_eval go_values transfer_def two_accounts_def)
  have ne: "SourceAccountID (transfer 1 2 ''40.00'') \<noteq> DestinationAccountID (transfer 1 2 ''40.00'')"
    by (simp add: transfer_def)
  from completed_transfer_balances [OF run ne] run show ?thesis
    by (simp add: go_values transfer_def two_accounts_def)
qed

text \<open>
  The claim as stated fails in two ways.  The transfer of 0.001 from account 1 (100.00) to
  account 2 (0.00) completes and leaves both balances as they were, since the balances
  are written with two digits after the point.  And a ``submitted'' event from account 1
  to account 1 over 40.00 completes with the balance at 140.00.
\<close>

theorem completed_transfer_not_exact:
  "HandleTransactionSubmitted go_lib (transfer 1 2 ''0.001'') two_accounts
     = (Returns None,
        two_accounts
          \<lparr>published :=
             [(''transaction.completed'', (transfer 1 2 ''0.001'')\<lparr>Status := ''complete''\<rparr>)]\<rparr>)
   \<and> fst (HandleTransactionSubmitted go_lib (transfer 1 1 ''40.00'') two_accounts) = Returns None
   \<and> accounts (snd (HandleTransactionSubmitted go_lib (transfer 1 1 ''40.00'') two_accounts)) 1
     = Some ''140.00''"
  by (simp add: handler_eval go_values transfer_def two_accounts_def)

section \<open>Source and destination the same account\<close>

text \<open>
  C10 (as amended). The handler does not compare source and destination.  Take an event
  that names the same existing account twice, with the channel working, a valid amount
  and a balance that the library compares as not below it; both loads then give the same
  balance.  With the database working, the debit is written first and the credit over
  it: the balance persisted is \<^verbatim>\<open>Text('f', 2)\<close> of the library's sum of the balance and
  the amount, and a ``completed'' event is published.  With the database failing on its
  fourth call, the write of the credit, the debit stays: the balance persisted is
  \<^verbatim>\<open>Text('f', 2)\<close> of the library's difference, the handler returns the error of the
  destination write and a ``failed'' event is published.
\<close>

theorem same_account_transfer_credits:
  assumes "SourceAccountID event = aid" and "DestinationAccountID event = aid"
    and "accounts w aid = Some b" and "publish_faults w = []"
    and "validateAmount lib (Amount event) = None"
    and "SetString lib b = Some x" and "SetString lib (Amount event) = Some a"
    and "0 \<le> Cmp lib x a" and "Sub lib x a = Some x'" and "Add lib x a = Some y'"
  shows "(storage_faults w = [] \<longrightarrow>
            HandleTransactionSubmitted lib event w
              = (Returns None,
                 w\<lparr>accounts := (accounts w)(aid \<mapsto> Text lib x', aid \<mapsto> Text lib y'),
                   published := published w @
                     [(EventTransactionCompleted, event\<lparr>Status := ''complete''\<rparr>)]\<rparr>)
            \<and> accounts (snd (HandleTransactionSubmitted lib event w)) aid
                = Some (Text lib y'))
       \<and> (storage_faults w = [False, False, False, True] \<longrightarrow>
            HandleTransactionSubmitted lib event w
              = (Returns (Some destination_write_error),
                 w\<lparr>accounts := (accounts w)(aid \<mapsto> Text lib x'),
                   storage_faults := [],
                   published := published w @
                     [(EventTransactionFailed,
                       event\<lparr>Status := ''failed: could not update destination account''\<rparr>)]\<rparr>)
            \<and> accounts (snd (HandleTransactionSubmitted lib event w)) aid
                = Some (Text lib x'))"
proof (intro conjI impI)
  assume "storage_faults w = []"
  with assms show "HandleTransactionSubmitted lib event w
              = (Returns None,
                 w\<lparr>accounts := (accounts w)(aid \<mapsto> Text lib x', aid \<mapsto> Text lib y'),
                   published := published w @
                     [(EventTransactionCompleted, event\<lparr>Status := ''complete''\<rparr>)]\<rparr>)"
    by (simp add: HandleTransactionSubmitted_def apply_transfer_def GetByID_working
          Update_working PublishTransactionCompleted_working)
  then show "accounts (snd (HandleTransactionSubmitted lib event w)) aid = Some (Text lib y')"
    by simp
next
  assume "storage_faults w = [False, False, False, True]"
  with assms show f: "HandleTransactionSubmitted lib event w
              = (Returns (Some destination_write_error),
                 w\<lparr>accounts := (accounts w)(aid \<mapsto> Text lib x'),
                   storage_faults := [],
                   published := published w @
                     [(EventTransactionFailed,
                       event\<lparr>Status := ''failed: could not update destination account''\<rparr>)]\<rparr>)"
    by (cases w)
       (simp add: HandleTransactionSubmitted_def apply_transfer_def GetByID_def Update_def
          emit_failed_def PublishTransactionFailed_def PublishWithContext_def
          destination_write_error_def)
  show "accounts (snd (HandleTransactionSubmitted lib event w)) aid = Some (Text lib x')"
    unfolding f by simp
qed

theorem same_account_transfer_credits_witness:
  "HandleTransactionSubmitted go_lib (transfer 1 1 ''40.00'') two_accounts
     = (Returns None,
        two_accounts
          \<lparr>accounts := [1 \<mapsto> ''100.00'', 2 \<mapsto> ''0.00'', 1 \<mapsto> ''140.00''],
           published :=
             [(''transaction.completed'', (transfer 1 1 ''40.00'')\<lparr>Status := ''complete''\<rparr>)]\<rparr>)
   \<and> accounts (snd (HandleTransactionSubmitted go_lib (transfer 1 1 ''40.00'') two_accounts)) 1
     = Some ''140.00''
   \<and> fst (HandleTransactionSubmitted go_lib (transfer 1 1 ''40.00'')
            (two_accounts\<lparr>storage_faults := [False, False, False, True]\<rparr>))
     = Returns (Some destination_write_error)
   \<and> accounts (snd (HandleTransactionSubmitted go_lib (transfer 1 1 ''40.00'')
            (two_accounts\<lparr>storage_faults := [False, False, False, True]\<rparr>))) 1
     = Some ''60.00''"
  using same_account_transfer_credits [where event = "transfer 1 1 ''40.00''" and aid = 1
      and w = two_accounts and b = "''100.00''" and lib = go_lib
      and x = "Float False 14411518807585587200 (- 57)"
      and a = "Float False 11529215046068469760 (- 58)"
      and x' = "Float False 17293822569102704640 (- 58)"
      and y' = "Float False 10088063165309911040 (- 56)"]
    same_account_transfer_credits [where event = "transfer 1 1 ''40.00''" and aid = 1
      and w = "two_accounts\<lparr>storage_faults := [False, False, False, True]\<rparr>"
      and b = "''100.00''" and lib = go_lib
      and x = "Float False 14411518807585587200 (- 57)"
      and a = "Float False 11529215046068469760 (- 58)"
      and x' = "Float False 17293822569102704640 (- 58)"
      and y' = "Float False 10088063165309911040 (- 56)"]
  by (simp add: validateAmount_def go_values transfer_def two_accounts_def
        EventTransactionCompleted_def)

text \<open>
  The claim as stated fails: the balance persisted is not always the balance plus the
  amount.  An event from account 1 (100.00) to account 1 over 0.001 completes with a
  ``completed'' event and leaves the balance at 100.00, since the sum is written with two
  digits after the point.
\<close>

theorem same_account_small_amount_unchanged:
  "fst (HandleTransactionSubmitted go_lib (transfer 1 1 ''0.001'') two_accounts) = Returns None
   \<and> accounts two_accounts 1 = Some ''100.00''
   \<and> accounts (snd (HandleTransactionSubmitted go_lib (transfer 1 1 ''0.001'') two_accounts)) 1
     = Some ''100.00''
   \<and> published (snd (HandleTransactionSubmitted go_lib (transfer 1 1 ''0.001'') two_accounts))
     = [(''transaction.completed'', (transfer 1 1 ''0.001'')\<lparr>Status := ''complete''\<rparr>)]"
  by (simp add: handler_eval go_values transfer_def two_accounts_def)

end
